theory Spec2Isabelle
  imports Main
begin

section \<open>JavaScript values\<close>

text \<open>
  The client is JavaScript: every value it handles (the configuration object, the
  command-line options, the payload objects handed to \<open>JSON.stringify\<close>) is dynamically
  typed. The data fragment of the language is embedded as a datatype. Objects are
  association lists in insertion order, which is the order \<open>JSON.stringify\<close> and the
  spread operator enumerate string keys in (keys that are canonical array indices,
  which the runtime enumerates first, do not occur among the keys of this program).

  Strings are \<open>string\<close>: a list of bytes, read as UTF-8. All characters the program
  inspects (separators, quotes, escapes, white space) are ASCII.

  Numbers: a finite number is represented by its decimal value in canonical form,
  \<open>Whole i\<close> for an integer and \<open>Frac m d\<close> for \<open>m / 10 ^ d\<close> with \<open>0 < d\<close> and \<open>m\<close>
  not divisible by ten. This is the value that \<open>Number::toString\<close> prints; the rounding of
  decimal literals to binary64 (beyond 15 significant digits, or outside its range) and the
  sign of zero are not represented.
\<close>

datatype jsnum = NaN | PInf | NInf | Whole int | Frac int nat

datatype jsval =
    Undefined
  | Null
  | Bool bool
  | Num jsnum
  | Str string
  | Arr "jsval list"
  | Obj "(string \<times> jsval) list"

datatype js_error =
    TypeError string
  | SyntaxError
  | Error string
  | IOError string

text \<open>ToBoolean: what \<open>!x\<close>, \<open>x ? a : b\<close> and \<open>x || y\<close> test.\<close>

fun truthy :: "jsval \<Rightarrow> bool" where
  "truthy Undefined = False"
| "truthy Null = False"
| "truthy (Bool b) = b"
| "truthy (Num NaN) = False"
| "truthy (Num (Whole i)) = (i \<noteq> 0)"
| "truthy (Num n) = True"
| "truthy (Str s) = (s \<noteq> [])"
| "truthy (Arr xs) = True"
| "truthy (Obj kvs) = True"

definition js_or :: "jsval \<Rightarrow> jsval \<Rightarrow> jsval" where
  "js_or a b = (if truthy a then a else b)"

text \<open>
  Property read \<open>v.k\<close>, for the fixed property names of the source (none of which is an
  array index, \<open>length\<close> or a method): reading a property of \<open>undefined\<close> or \<open>null\<close>
  throws a TypeError, an object yields the stored value or \<open>undefined\<close>, any other
  value has no such property.
\<close>

fun obj_lookup :: "(string \<times> jsval) list \<Rightarrow> string \<Rightarrow> jsval" where
  "obj_lookup [] k = Undefined"
| "obj_lookup ((k', v) # kvs) k = (if k' = k then v else obj_lookup kvs k)"

fun js_get :: "jsval \<Rightarrow> string \<Rightarrow> js_error + jsval" where
  "js_get Undefined k = Inl (TypeError (''Cannot read properties of undefined (reading '' @ k @ '')''))"
| "js_get Null k = Inl (TypeError (''Cannot read properties of null (reading '' @ k @ '')''))"
| "js_get (Obj kvs) k = Inr (obj_lookup kvs k)"
| "js_get v k = Inr Undefined"

text \<open>
  Property read on a value already known to be an object or a primitive other than
  \<open>undefined\<close> and \<open>null\<close> (the source has tested it, or built it).
\<close>

fun js_prop :: "jsval \<Rightarrow> string \<Rightarrow> jsval" where
  "js_prop (Obj kvs) k = obj_lookup kvs k"
| "js_prop v k = Undefined"

text \<open>
  Property write \<open>o.k = v\<close>: an existing key keeps its position, a new key is appended.
  The program writes properties of objects only (the configuration, the claim and proof
  data it has built, a parsed payload).
\<close>

fun obj_set :: "(string \<times> jsval) list \<Rightarrow> string \<Rightarrow> jsval \<Rightarrow> (string \<times> jsval) list" where
  "obj_set [] k v = [(k, v)]"
| "obj_set ((k', v') # kvs) k v = (if k' = k then (k, v) # kvs else (k', v') # obj_set kvs k v)"

fun js_set :: "jsval \<Rightarrow> string \<Rightarrow> jsval \<Rightarrow> jsval" where
  "js_set (Obj kvs) k v = Obj (obj_set kvs k v)"
| "js_set x k v = x"

section \<open>Decimal digits and \<open>Number::toString\<close>\<close>

definition digit_char :: "nat \<Rightarrow> char" where
  "digit_char n = ''0123456789'' ! n"

fun show_nat :: "nat \<Rightarrow> string" where
  "show_nat n = (if n < 10 then [digit_char n] else show_nat (n div 10) @ [digit_char (n mod 10)])"

declare show_nat.simps [simp del]

definition show_int :: "int \<Rightarrow> string" where
  "show_int i = (if i < 0 then CHR ''-'' # show_nat (nat (- i)) else show_nat (nat i))"

definition strip_trailing_zeros :: "string \<Rightarrow> string" where
  "strip_trailing_zeros ds = rev (dropWhile (\<lambda>c. c = CHR ''0'') (rev ds))"

definition exp_str :: "int \<Rightarrow> string" where
  "exp_str e = CHR ''e'' # (if e < 0 then CHR ''-'' else CHR ''+'') # show_nat (nat \<bar>e\<bar>)"

text \<open>
  ECMAScript \<open>Number::toString\<close> (radix 10), steps 6 to 10, on the digits \<open>ds\<close> of \<open>s\<close>
  (\<open>k = length ds\<close>, no trailing zero) and the position \<open>n\<close> of the decimal point:
  the number is \<open>s * 10 ^ (n - k)\<close>.
\<close>

definition digits_toString :: "string \<Rightarrow> int \<Rightarrow> string" where
  "digits_toString ds n =
     (let k = int (length ds) in
      if k \<le> n \<and> n \<le> 21 then ds @ replicate (nat (n - k)) (CHR ''0'')
      else if 0 < n \<and> n \<le> 21 then take (nat n) ds @ ''.'' @ drop (nat n) ds
      else if - 6 < n \<and> n \<le> 0 then ''0.'' @ replicate (nat (- n)) (CHR ''0'') @ ds
      else if k = 1 then ds @ exp_str (n - 1)
      else take 1 ds @ ''.'' @ drop 1 ds @ exp_str (n - 1))"

fun Number_toString :: "jsnum \<Rightarrow> string" where
  "Number_toString NaN = ''NaN''"
| "Number_toString PInf = ''Infinity''"
| "Number_toString NInf = ''-Infinity''"
| "Number_toString (Whole i) =
     (if i = 0 then ''0''
      else (if i < 0 then ''-'' else []) @
           (let ds0 = show_nat (nat \<bar>i\<bar>)
            in digits_toString (strip_trailing_zeros ds0) (int (length ds0))))"
| "Number_toString (Frac m d) =
     (if m < 0 then ''-'' else []) @
     (let ds = show_nat (nat \<bar>m\<bar>) in digits_toString ds (int (length ds) - int d))"

fun is_finite :: "jsnum \<Rightarrow> bool" where
  "is_finite (Whole i) = True"
| "is_finite (Frac m d) = True"
| "is_finite n = False"

section \<open>\<open>JSON.stringify\<close>\<close>

definition hex_digit :: "nat \<Rightarrow> char" where
  "hex_digit n = ''0123456789abcdef'' ! n"

text \<open>
  QuoteJSONString: the two-character escapes, \<open>\u00xx\<close> for the other control characters,
  every other character as it is.
\<close>

definition escape_char :: "char \<Rightarrow> string" where
  "escape_char c =
     (if c = CHR 0x08 then [CHR 0x5C, CHR ''b'']
      else if c = CHR 0x09 then [CHR 0x5C, CHR ''t'']
      else if c = CHR 0x0A then [CHR 0x5C, CHR ''n'']
      else if c = CHR 0x0C then [CHR 0x5C, CHR ''f'']
      else if c = CHR 0x0D then [CHR 0x5C, CHR ''r'']
      else if c = CHR 0x22 then [CHR 0x5C, CHR 0x22]
      else if c = CHR 0x5C then [CHR 0x5C, CHR 0x5C]
      else if (of_char c :: nat) < 0x20
        then [CHR 0x5C, CHR ''u'', CHR ''0'', CHR ''0'',
              hex_digit (of_char c div 16), hex_digit (of_char c mod 16)]
      else [c])"

definition escape :: "string \<Rightarrow> string" where
  "escape s = concat (map escape_char s)"

definition quote :: "string \<Rightarrow> string" where
  "quote s = CHR 0x22 # escape s @ [CHR 0x22]"

fun join :: "'a list \<Rightarrow> 'a list list \<Rightarrow> 'a list" where
  "join sep [] = []"
| "join sep [x] = x"
| "join sep (x # y # ys) = x @ sep @ join sep (y # ys)"

text \<open>
  SerializeJSONProperty with its two pieces of state, the \<open>gap\<close> (empty for
  \<open>JSON.stringify(v)\<close>, two spaces for \<open>JSON.stringify(v, null, 2)\<close>) and the current
  \<open>indent\<close>. \<open>None\<close> is the result \<open>undefined\<close>: such a property is left out of an
  object and printed as \<open>null\<close> in an array. Non-finite numbers print as \<open>null\<close>.
\<close>

definition wrap_json :: "char \<Rightarrow> char \<Rightarrow> string \<Rightarrow> string \<Rightarrow> string list \<Rightarrow> string" where
  "wrap_json l r gap stepback partial =
     (if partial = [] then [l, r]
      else if gap = [] then l # join '','' partial @ [r]
      else let indent = stepback @ gap
           in l # CHR 0x0A # indent @ join ('','' @ CHR 0x0A # indent) partial
                @ CHR 0x0A # stepback @ [r])"

definition json_num :: "jsnum \<Rightarrow> string" where
  "json_num n = (if is_finite n then Number_toString n else ''null'')"

fun ser :: "string \<Rightarrow> string \<Rightarrow> jsval \<Rightarrow> string option" where
  "ser gap ind Undefined = None"
| "ser gap ind Null = Some ''null''"
| "ser gap ind (Bool b) = Some (if b then ''true'' else ''false'')"
| "ser gap ind (Num n) = Some (json_num n)"
| "ser gap ind (Str s) = Some (quote s)"
| "ser gap ind (Arr xs) =
     Some (wrap_json (CHR ''['') (CHR '']'') gap ind
       (map (\<lambda>x. case ser gap (ind @ gap) x of None \<Rightarrow> ''null'' | Some t \<Rightarrow> t) xs))"
| "ser gap ind (Obj kvs) =
     Some (wrap_json (CHR ''{'') (CHR ''}'') gap ind
       (concat (map (\<lambda>kv. case ser gap (ind @ gap) (snd kv) of
                         None \<Rightarrow> []
                       | Some t \<Rightarrow> [quote (fst kv) @ '':'' @ (if gap = [] then [] else '' '') @ t])
                    kvs)))"

text \<open>\<open>JSON.stringify(v)\<close> and \<open>JSON.stringify(v, null, 2)\<close>; \<open>None\<close> is \<open>undefined\<close>.\<close>

definition JSON_stringify :: "jsval \<Rightarrow> string option" where
  "JSON_stringify v = ser [] [] v"

definition JSON_stringify2 :: "jsval \<Rightarrow> string option" where
  "JSON_stringify2 v = ser ''  '' [] v"

section \<open>\<open>JSON.parse\<close> and \<open>parseFloat\<close>\<close>

definition is_ws :: "char \<Rightarrow> bool" where
  "is_ws c = (c = CHR '' '' \<or> c = CHR 0x09 \<or> c = CHR 0x0A \<or> c = CHR 0x0D)"

definition skip_ws :: "string \<Rightarrow> string" where
  "skip_ws cs = dropWhile is_ws cs"

definition is_digit :: "char \<Rightarrow> bool" where
  "is_digit c = (c \<in> set ''0123456789'')"

definition digit_val :: "char \<Rightarrow> nat" where
  "digit_val c = of_char c - 48"

definition nat_of_digits :: "string \<Rightarrow> nat" where
  "nat_of_digits ds = foldl (\<lambda>a c. 10 * a + digit_val c) 0 ds"

definition hex_val :: "char \<Rightarrow> nat option" where
  "hex_val c =
     (if is_digit c then Some (of_char c - 48)
      else if c \<in> set ''abcdef'' then Some (of_char c - 87)
      else if c \<in> set ''ABCDEF'' then Some (of_char c - 55)
      else None)"

definition hex4 :: "char \<Rightarrow> char \<Rightarrow> char \<Rightarrow> char \<Rightarrow> nat option" where
  "hex4 a b c d =
     (case (hex_val a, hex_val b, hex_val c, hex_val d) of
        (Some w, Some x, Some y, Some z) \<Rightarrow> Some (((w * 16 + x) * 16 + y) * 16 + z)
      | _ \<Rightarrow> None)"

text \<open>The UTF-8 bytes of a code point (a lone surrogate is encoded like any three-byte one).\<close>

definition utf8 :: "nat \<Rightarrow> string" where
  "utf8 n =
     (if n < 0x80 then [char_of n]
      else if n < 0x800 then [char_of (0xC0 + n div 64), char_of (0x80 + n mod 64)]
      else if n < 0x10000 then
        [char_of (0xE0 + n div 4096), char_of (0x80 + n div 64 mod 64), char_of (0x80 + n mod 64)]
      else
        [char_of (0xF0 + n div 262144), char_of (0x80 + n div 4096 mod 64),
         char_of (0x80 + n div 64 mod 64), char_of (0x80 + n mod 64)])"

definition unescape :: "char \<Rightarrow> char option" where
  "unescape e =
     (if e = CHR 0x22 then Some (CHR 0x22)
      else if e = CHR 0x5C then Some (CHR 0x5C)
      else if e = CHR ''/'' then Some (CHR ''/'')
      else if e = CHR ''b'' then Some (CHR 0x08)
      else if e = CHR ''f'' then Some (CHR 0x0C)
      else if e = CHR ''n'' then Some (CHR 0x0A)
      else if e = CHR ''r'' then Some (CHR 0x0D)
      else if e = CHR ''t'' then Some (CHR 0x09)
      else None)"

text \<open>
  The low half of a surrogate pair, when the input continues with one (six characters,
  \<open>\uDC00\<close> to \<open>\uDFFF\<close>): the code point of the pair.
\<close>

definition low_surrogate :: "nat \<Rightarrow> string \<Rightarrow> nat option" where
  "low_surrogate hi cs =
     (case cs of
        b # u # w # x # y # z # r \<Rightarrow>
          (if 0xD800 \<le> hi \<and> hi < 0xDC00 \<and> b = CHR 0x5C \<and> u = CHR ''u'' then
             (case hex4 w x y z of
                Some lo \<Rightarrow>
                  (if 0xDC00 \<le> lo \<and> lo < 0xE000
                   then Some (0x10000 + (hi - 0xD800) * 0x400 + (lo - 0xDC00))
                   else None)
              | None \<Rightarrow> None)
           else None)
      | _ \<Rightarrow> None)"

text \<open>A JSON string after its opening quote: the decoded string and the input after the closing quote.\<close>

fun parse_string_body :: "string \<Rightarrow> (string \<times> string) option" where
  "parse_string_body [] = None"
| "parse_string_body (c # cs) =
     (if c = CHR 0x22 then Some ([], cs)
      else if c = CHR 0x5C then
        (case cs of
           [] \<Rightarrow> None
         | e # r \<Rightarrow>
             (if e = CHR ''u'' then
                (case r of
                   w # x # y # z # r' \<Rightarrow>
                     (case hex4 w x y z of
                        None \<Rightarrow> None
                      | Some n \<Rightarrow>
                          (case low_surrogate n r' of
                             Some m \<Rightarrow>
                               (case parse_string_body (drop 6 r') of
                                  None \<Rightarrow> None
                                | Some (s, rest) \<Rightarrow> Some (utf8 m @ s, rest))
                           | None \<Rightarrow>
                               (case parse_string_body r' of
                                  None \<Rightarrow> None
                                | Some (s, rest) \<Rightarrow> Some (utf8 n @ s, rest))))
                 | _ \<Rightarrow> None)
              else
                (case unescape e of
                   None \<Rightarrow> None
                 | Some x \<Rightarrow>
                     (case parse_string_body r of
                        None \<Rightarrow> None
                      | Some (s, rest) \<Rightarrow> Some (x # s, rest)))))
      else if (of_char c :: nat) < 0x20 then None
      else (case parse_string_body cs of
              None \<Rightarrow> None
            | Some (s, rest) \<Rightarrow> Some (c # s, rest)))"

text \<open>
  The canonical form of \<open>\<plusminus> m * 10 ^ e\<close>: common factors of ten leave the fraction.
\<close>

fun reduce_frac :: "nat \<Rightarrow> nat \<Rightarrow> nat \<times> nat" where
  "reduce_frac m 0 = (m, 0)"
| "reduce_frac m (Suc d) = (if m mod 10 = 0 then reduce_frac (m div 10) d else (m, Suc d))"

definition mk_num :: "bool \<Rightarrow> nat \<Rightarrow> int \<Rightarrow> jsnum" where
  "mk_num neg m e =
     (let sg = (if neg then - 1 else 1 :: int) in
      if m = 0 then Whole 0
      else if 0 \<le> e then Whole (sg * int m * 10 ^ nat e)
      else (case reduce_frac m (nat (- e)) of
              (m', d) \<Rightarrow> if d = 0 then Whole (sg * int m') else Frac (sg * int m') d))"

text \<open>
  An exponent part \<open>[eE][+-]?digits\<close> at the head of the input: its value and the input
  after it; \<open>None\<close> when the input does not start with a complete exponent part.
\<close>

definition exponent_part :: "string \<Rightarrow> (int \<times> string) option" where
  "exponent_part cs =
     (case cs of
        [] \<Rightarrow> None
      | e # t \<Rightarrow>
          (if e = CHR ''e'' \<or> e = CHR ''E'' then
             (let (neg, t') =
                    (case t of
                       [] \<Rightarrow> (False, t)
                     | g # u \<Rightarrow> if g = CHR ''-'' then (True, u)
                                else if g = CHR ''+'' then (False, u) else (False, t));
                  ds = takeWhile is_digit t'
              in if ds = [] then None
                 else Some ((if neg then - 1 else 1) * int (nat_of_digits ds), dropWhile is_digit t'))
           else None))"

text \<open>A JSON number: \<open>-?(0|[1-9][0-9]*)(.[0-9]+)?([eE][+-]?[0-9]+)?\<close>.\<close>

definition parse_number :: "string \<Rightarrow> (jsnum \<times> string) option" where
  "parse_number cs =
     (let (neg, s1) = (case cs of [] \<Rightarrow> (False, cs)
                       | c # r \<Rightarrow> if c = CHR ''-'' then (True, r) else (False, cs));
          ip = takeWhile is_digit s1;
          r1 = dropWhile is_digit s1
      in if ip = [] \<or> (1 < length ip \<and> hd ip = CHR ''0'') then None
         else
           (let (fp, r2) = (case r1 of [] \<Rightarrow> (None, r1)
                            | c # t \<Rightarrow> if c = CHR ''.''
                                then (Some (takeWhile is_digit t), dropWhile is_digit t)
                                else (None, r1))
            in if fp = Some [] then None
               else
                 (let fd = (case fp of None \<Rightarrow> [] | Some ds \<Rightarrow> ds) in
                  case r2 of
                    [] \<Rightarrow> Some (mk_num neg (nat_of_digits (ip @ fd)) (- int (length fd)), r2)
                  | c # t \<Rightarrow>
                      (if c = CHR ''e'' \<or> c = CHR ''E'' then
                         (case exponent_part r2 of
                            None \<Rightarrow> None
                          | Some (ex, r3) \<Rightarrow>
                              Some (mk_num neg (nat_of_digits (ip @ fd)) (ex - int (length fd)), r3))
                       else Some (mk_num neg (nat_of_digits (ip @ fd)) (- int (length fd)), r2)))))"

text \<open>
  \<open>JSON.parse\<close> puts the members into the object one by one: a repeated key keeps its
  first position and takes the last value.
\<close>

definition obj_of_members :: "(string \<times> jsval) list \<Rightarrow> (string \<times> jsval) list" where
  "obj_of_members kvs = foldl (\<lambda>acc kv. obj_set acc (fst kv) (snd kv)) [] kvs"

definition literal :: "string \<Rightarrow> string \<Rightarrow> string option" where
  "literal w cs = (if take (length w) cs = w then Some (drop (length w) cs) else None)"

text \<open>
  The recursive-descent parser. The first argument bounds the number of nested calls;
  every call is made after at least one character has been consumed, so a bound above
  the length of the input is never reached (see \<open>JSON_parse\<close>).
\<close>

fun parse_value :: "nat \<Rightarrow> string \<Rightarrow> (jsval \<times> string) option"
  and parse_members :: "nat \<Rightarrow> string \<Rightarrow> ((string \<times> jsval) list \<times> string) option"
  and parse_elements :: "nat \<Rightarrow> string \<Rightarrow> (jsval list \<times> string) option"
where
  "parse_value 0 cs = None"
| "parse_value (Suc n) cs =
     (case skip_ws cs of
        [] \<Rightarrow> None
      | c # r \<Rightarrow>
          (if c = CHR ''{'' then
             (case skip_ws r of
                [] \<Rightarrow> None
              | c2 # r2 \<Rightarrow>
                  (if c2 = CHR ''}'' then Some (Obj [], r2)
                   else (case parse_members n (c2 # r2) of
                           None \<Rightarrow> None
                         | Some (kvs, rest) \<Rightarrow> Some (Obj (obj_of_members kvs), rest))))
           else if c = CHR ''['' then
             (case skip_ws r of
                [] \<Rightarrow> None
              | c2 # r2 \<Rightarrow>
                  (if c2 = CHR '']'' then Some (Arr [], r2)
                   else (case parse_elements n (c2 # r2) of
                           None \<Rightarrow> None
                         | Some (xs, rest) \<Rightarrow> Some (Arr xs, rest))))
           else if c = CHR 0x22 then
             (case parse_string_body r of
                None \<Rightarrow> None
              | Some (s, rest) \<Rightarrow> Some (Str s, rest))
           else if c = CHR ''-'' \<or> is_digit c then
             (case parse_number (c # r) of
                None \<Rightarrow> None
              | Some (x, rest) \<Rightarrow> Some (Num x, rest))
           else if c = CHR ''n'' then map_option (Pair Null) (literal ''null'' (c # r))
           else if c = CHR ''t'' then map_option (Pair (Bool True)) (literal ''true'' (c # r))
           else if c = CHR ''f'' then map_option (Pair (Bool False)) (literal ''false'' (c # r))
           else None))"
| "parse_members 0 cs = None"
| "parse_members (Suc n) cs =
     (case cs of
        [] \<Rightarrow> None
      | c # r \<Rightarrow>
          (if c = CHR 0x22 then
             (case parse_string_body r of
                None \<Rightarrow> None
              | Some (k, r1) \<Rightarrow>
                  (case skip_ws r1 of
                     [] \<Rightarrow> None
                   | c1 # r2 \<Rightarrow>
                       (if c1 = CHR '':'' then
                          (case parse_value n r2 of
                             None \<Rightarrow> None
                           | Some (v, r3) \<Rightarrow>
                               (case skip_ws r3 of
                                  [] \<Rightarrow> None
                                | c3 # r4 \<Rightarrow>
                                    (if c3 = CHR '','' then
                                       (case parse_members n (skip_ws r4) of
                                          None \<Rightarrow> None
                                        | Some (kvs, rest) \<Rightarrow> Some ((k, v) # kvs, rest))
                                     else if c3 = CHR ''}'' then Some ([(k, v)], r4)
                                     else None)))
                        else None)))
           else None))"
| "parse_elements 0 cs = None"
| "parse_elements (Suc n) cs =
     (case parse_value n cs of
        None \<Rightarrow> None
      | Some (v, r3) \<Rightarrow>
          (case skip_ws r3 of
             [] \<Rightarrow> None
           | c3 # r4 \<Rightarrow>
               (if c3 = CHR '','' then
                  (case parse_elements n r4 of
                     None \<Rightarrow> None
                   | Some (vs, rest) \<Rightarrow> Some (v # vs, rest))
                else if c3 = CHR '']'' then Some ([v], r4)
                else None)))"

text \<open>\<open>JSON.parse\<close>: one value, then only white space; anything else is a SyntaxError.\<close>

definition JSON_parse :: "string \<Rightarrow> js_error + jsval" where
  "JSON_parse s =
     (case parse_value (Suc (length s)) s of
        None \<Rightarrow> Inl SyntaxError
      | Some (v, rest) \<Rightarrow> if skip_ws rest = [] then Inr v else Inl SyntaxError)"

text \<open>
  \<open>parseFloat\<close>: leading white space is dropped, the longest prefix that is a decimal
  literal is read, and \<open>NaN\<close> is returned when there is none. White space is the ASCII
  white space; the other Unicode spaces that \<open>parseFloat\<close> and \<open>trim\<close> also drop are
  not treated.
\<close>

definition is_js_space :: "char \<Rightarrow> bool" where
  "is_js_space c = (c = CHR '' '' \<or> c = CHR 0x09 \<or> c = CHR 0x0A \<or> c = CHR 0x0B
                     \<or> c = CHR 0x0C \<or> c = CHR 0x0D)"

definition parseFloat :: "string \<Rightarrow> jsnum" where
  "parseFloat inp =
     (let s = dropWhile is_js_space inp;
          (neg, s1) = (case s of [] \<Rightarrow> (False, s)
                       | c # r \<Rightarrow> if c = CHR ''-'' then (True, r)
                                  else if c = CHR ''+'' then (False, r) else (False, s))
      in if take 8 s1 = ''Infinity'' then (if neg then NInf else PInf)
         else
           (let ip = takeWhile is_digit s1;
                r1 = dropWhile is_digit s1;
                (fd, r2) = (case r1 of [] \<Rightarrow> ([], r1)
                            | c # t \<Rightarrow> if c = CHR ''.''
                                then (takeWhile is_digit t, dropWhile is_digit t)
                                else ([], r1))
            in if ip = [] \<and> fd = [] then NaN
               else mk_num neg (nat_of_digits (ip @ fd))
                      ((case exponent_part r2 of None \<Rightarrow> 0 | Some (ex, r3) \<Rightarrow> ex)
                       - int (length fd))))"

section \<open>String methods\<close>

text \<open>\<open>s.split(c)\<close> for a one-character separator, \<open>s.trim()\<close>, \<open>xs.slice(1, -2)\<close>.\<close>

fun split_on :: "char \<Rightarrow> string \<Rightarrow> string list" where
  "split_on c [] = [] # []"
| "split_on c (x # xs) =
     (if x = c then [] # split_on c xs
      else (case split_on c xs of [] \<Rightarrow> [x] # [] | w # ws \<Rightarrow> (x # w) # ws))"

definition trim :: "string \<Rightarrow> string" where
  "trim s = rev (dropWhile is_js_space (rev (dropWhile is_js_space s)))"


text \<open>ToString, as a template literal or a string concatenation applies it.\<close>

fun js_toString :: "jsval \<Rightarrow> string" where
  "js_toString Undefined = ''undefined''"
| "js_toString Null = ''null''"
| "js_toString (Bool b) = (if b then ''true'' else ''false'')"
| "js_toString (Num n) = Number_toString n"
| "js_toString (Str s) = s"
| "js_toString (Arr xs) =
     join '','' (map (\<lambda>x. if x = Undefined \<or> x = Null then [] else js_toString x) xs)"
| "js_toString (Obj kvs) = ''[object Object]''"

text \<open>
  The own enumerable properties that the spread \<open>{...v}\<close> copies, and the object
  \<open>{...a, ...b}\<close>.
\<close>

fun own_props :: "jsval \<Rightarrow> (string \<times> jsval) list" where
  "own_props (Obj kvs) = kvs"
| "own_props (Arr xs) = zip (map show_nat [0..<length xs]) xs"
| "own_props (Str s) = zip (map show_nat [0..<length s]) (map (\<lambda>c. Str [c]) s)"
| "own_props v = []"

definition spread2 :: "jsval \<Rightarrow> jsval \<Rightarrow> jsval" where
  "spread2 a b = Obj (foldl (\<lambda>acc kv. obj_set acc (fst kv) (snd kv)) (own_props a) (own_props b))"

section \<open>The environment: file system, console, network, clock, crypto\<close>

text \<open>
  The program reads and writes one file, \<open>config.json\<close> in the directory \<open>~/.otrust\<close>,
  prints lines, and posts HTTP requests. The world records the directory, the file, whether
  reads and writes succeed, the lines printed and the requests issued, in order.
  An error of the file system carries the name of the failing call, not the text of the
  operating system.
\<close>

record request =
  http_method :: string
  base :: jsval
  url :: string
  body :: jsval
  authorization :: "string option"

datatype http_result =
    HttpOk jsval
  | HttpError nat string jsval
  | NetworkError

record world =
  dir_exists :: bool
  config_file :: "string option"
  can_read :: bool
  can_write :: bool
  console :: "string list"
  requests :: "request list"

definition console_log :: "string \<Rightarrow> 'a world_scheme \<Rightarrow> 'a world_scheme" where
  "console_log l w = w\<lparr>console := console w @ [l]\<rparr>"

definition existsSync_file :: "'a world_scheme \<Rightarrow> bool" where
  "existsSync_file w = (dir_exists w \<and> config_file w \<noteq> None)"

definition mkdirSync :: "'a world_scheme \<Rightarrow> js_error + 'a world_scheme" where
  "mkdirSync w = (if can_write w then Inr (w\<lparr>dir_exists := True\<rparr>) else Inl (IOError ''mkdir''))"

definition readFileSync :: "'a world_scheme \<Rightarrow> js_error + string" where
  "readFileSync w =
     (case config_file w of
        None \<Rightarrow> Inl (IOError ''read'')
      | Some d \<Rightarrow> if dir_exists w \<and> can_read w then Inr d else Inl (IOError ''read''))"

definition writeFileSync :: "string \<Rightarrow> 'a world_scheme \<Rightarrow> js_error + 'a world_scheme" where
  "writeFileSync d w =
     (if dir_exists w \<and> can_write w then Inr (w\<lparr>config_file := Some d\<rparr>) else Inl (IOError ''write''))"

text \<open>
  \<open>writeFileSync\<close> opens the file with flag \<open>w\<close>, which truncates it, and then writes
  the data from the start; there is no temporary file and no rename. When the process is
  stopped after \<open>k\<close> bytes have reached the file, the file holds those bytes.
\<close>

definition writeFileSync_interrupted :: "nat \<Rightarrow> string \<Rightarrow> 'a world_scheme \<Rightarrow> 'a world_scheme" where
  "writeFileSync_interrupted k d w =
     (if dir_exists w \<and> can_write w then w\<lparr>config_file := Some (take k d)\<rparr> else w)"

fun message :: "js_error \<Rightarrow> string" where
  "message (TypeError m) = m"
| "message SyntaxError = ''Unexpected token in JSON''"
| "message (Error m) = m"
| "message (IOError m) = m"

section \<open>The command-line program\<close>

subsection \<open>Configuration\<close>

record cli = world +
  config :: jsval

definition default_config :: jsval where
  "default_config =
     Obj [(''server'', Str ''http://localhost:3000''), (''keyPair'', Null), (''token'', Null)]"

definition saveConfig :: "cli \<Rightarrow> cli" where
  "saveConfig st =
     (case JSON_stringify2 (config st) of
        None \<Rightarrow> console_log (''Error saving config file: '' @ message (TypeError ''data'')) st
      | Some d \<Rightarrow>
          (case writeFileSync d st of
             Inl e \<Rightarrow> console_log (''Error saving config file: '' @ message e) st
           | Inr st' \<Rightarrow> st'))"

definition initConfig :: "cli \<Rightarrow> js_error + cli" where
  "initConfig st =
     (case (if \<not> dir_exists st then mkdirSync st else Inr st) of
        Inl e \<Rightarrow> Inl e
      | Inr st1 \<Rightarrow>
          (if existsSync_file st1 then
             (case readFileSync st1 of
                Inl e \<Rightarrow> Inr (console_log (''Error loading config file: '' @ message e) st1)
              | Inr d \<Rightarrow>
                  (case JSON_parse d of
                     Inl e \<Rightarrow> Inr (console_log (''Error loading config file: '' @ message e) st1)
                   | Inr parsed \<Rightarrow> Inr (st1\<lparr>config := spread2 (config st1) parsed\<rparr>)))
           else Inr (saveConfig st1)))"

text \<open>A fresh process: the global \<open>config\<close> holds the defaults, nothing is printed or sent yet.\<close>

definition start :: "world \<Rightarrow> cli" where
  "start w = world.extend w (cli.fields default_config)"

subsection \<open>Keys and signatures\<close>

type_synonym signer = "string \<Rightarrow> jsval \<Rightarrow> js_error + string"


definition signData :: "signer \<Rightarrow> string \<Rightarrow> jsval \<Rightarrow> js_error + string" where
  "signData signer d privateKey = signer d privateKey"


subsection \<open>Requests\<close>

text \<open>
  \<open>getAxiosInstance\<close> and a \<open>post\<close> on it: the request carries the server of the
  configuration and, when a token is set, the bearer header. The response interceptor
  prints one line per kind of failure. The result is the response data, or \<open>None\<close> when
  the promise is rejected.
\<close>

definition interceptor_line :: "http_result \<Rightarrow> string list" where
  "interceptor_line r =
     (case r of
        HttpOk d \<Rightarrow> []
      | NetworkError \<Rightarrow> [''Network error: Could not connect to server'']
      | HttpError status statusText d \<Rightarrow>
          (if status = 401 then [''Authentication error: Please login first'']
           else if truthy d \<and> truthy (js_prop d ''error'') then
             (''Error ('' @ show_nat status @ ''): '' @ js_toString (js_prop d ''error''))
             # (if truthy (js_prop d ''message'')
                then [''Details: '' @ js_toString (js_prop d ''message'')] else [])
           else [''Error '' @ show_nat status @ '': '' @ statusText]))"

definition api_post :: "(request \<Rightarrow> http_result) \<Rightarrow> string \<Rightarrow> jsval \<Rightarrow> cli \<Rightarrow> jsval option \<times> cli" where
  "api_post net path b st =
     (let token = js_prop (config st) ''token'';
          req = \<lparr>http_method = ''POST'', base = js_prop (config st) ''server'', url = path, body = b,
                 authorization = (if truthy token then Some (''Bearer '' @ js_toString token) else None)\<rparr>;
          st1 = st\<lparr>requests := requests st @ [req]\<rparr>;
          st2 = st1\<lparr>console := console st1 @ interceptor_line (net req)\<rparr>
      in (case net req of HttpOk d \<Rightarrow> Some d | _ \<Rightarrow> None, st2))"

subsection \<open>Commands\<close>

text \<open>
  An option of the command line is a string, or \<open>undefined\<close> when the flag is absent;
  a switch is a boolean. The clock \<open>Date.now()\<close> is the parameter \<open>now\<close>, the server
  the parameter \<open>net\<close>. The lines that render the data of a response are not modelled.
\<close>

definition opt_val :: "string option \<Rightarrow> jsval" where
  "opt_val x = (case x of None \<Rightarrow> Undefined | Some s \<Rightarrow> Str s)"

definition cmd_config :: "string option \<Rightarrow> bool \<Rightarrow> cli \<Rightarrow> cli" where
  "cmd_config server pr st =
     (let st1 = (if truthy (opt_val server)
                 then (let st' = saveConfig (st\<lparr>config := js_set (config st) ''server'' (opt_val server)\<rparr>)
                       in console_log (''Server URL updated: '' @ js_toString (js_prop (config st') ''server'')) st')
                 else st)
      in if pr \<or> \<not> truthy (opt_val server) then
           console_log (''Authentication: '' @
                 (if truthy (js_prop (config st1) ''token'') then ''Logged in'' else ''Not logged in''))
            (console_log (''Public key: '' @
                 (if truthy (js_prop (config st1) ''keyPair'') then ''Configured'' else ''Not configured''))
              (console_log (''Server URL: '' @ js_toString (js_prop (config st1) ''server''))
                (console_log ''Current configuration:'' st1)))
         else st1)"


text \<open>
  \<open>register\<close> and \<open>login\<close> differ in the action name, the path and the lines printed.
  The canonical string that is signed is \<open>auth_payload\<close>.
\<close>

definition auth_payload :: "string \<Rightarrow> jsval \<Rightarrow> int \<Rightarrow> string option" where
  "auth_payload action keyPair now =
     JSON_stringify (Obj [(''action'', Str action),
                          (''publicKey'', js_prop keyPair ''publicKey''),
                          (''timestamp'', Num (Whole now))])"

definition cmd_auth :: "string \<Rightarrow> string \<Rightarrow> string \<Rightarrow> string \<Rightarrow> string \<Rightarrow>
    signer \<Rightarrow> (request \<Rightarrow> http_result) \<Rightarrow> int \<Rightarrow> cli \<Rightarrow> cli" where
  "cmd_auth action path starting succeeded failed signer net now st =
     (let keyPair = js_prop (config st) ''keyPair'' in
      if \<not> truthy keyPair then
        console_log ''Error: No key pair found. Run \"otrust-cli init\" first'' st
      else
        (let st1 = console_log starting st in
         case auth_payload action keyPair now of
           None \<Rightarrow> console_log failed st1
         | Some payload \<Rightarrow>
             (case signData signer payload (js_prop keyPair ''privateKey'') of
                Inl e \<Rightarrow> console_log failed st1
              | Inr signature \<Rightarrow>
                  (case api_post net path
                          (Obj [(''publicKey'', js_prop keyPair ''publicKey''),
                                (''signature'', Str signature),
                                (''timestamp'', Num (Whole now))]) st1 of
                     (None, st2) \<Rightarrow> console_log failed st2
                   | (Some d, st2) \<Rightarrow>
                       (case js_get d ''token'' of
                          Inl e \<Rightarrow> console_log failed st2
                        | Inr token \<Rightarrow>
                            console_log succeeded
                              (saveConfig (st2\<lparr>config := js_set (config st2) ''token'' token\<rparr>)))))))"

definition cmd_register :: "signer \<Rightarrow> (request \<Rightarrow> http_result) \<Rightarrow> int \<Rightarrow> cli \<Rightarrow> cli" where
  "cmd_register = cmd_auth ''register'' ''/api/auth/register'' ''Registering account...''
     ''Account registered successfully'' ''Registration failed''"

definition cmd_login :: "signer \<Rightarrow> (request \<Rightarrow> http_result) \<Rightarrow> int \<Rightarrow> cli \<Rightarrow> cli" where
  "cmd_login = cmd_auth ''login'' ''/api/auth/login'' ''Logging in...''
     ''Login successful'' ''Login failed''"

definition cmd_logout :: "cli \<Rightarrow> cli" where
  "cmd_logout st =
     (if \<not> truthy (js_prop (config st) ''token'') then console_log ''You are not logged in'' st
      else console_log ''Logged out successfully''
             (saveConfig (st\<lparr>config := js_set (config st) ''token'' Null\<rparr>)))"

record claim_options =
  c_interactive :: bool
  c_claim :: "string option"
  c_evidence :: "string option"
  c_type :: "string option"
  c_subject :: "string option"
  c_predicate :: "string option"
  c_object :: "string option"

text \<open>
  The claim data of \<open>claim:create\<close>. The prompt of interactive mode belongs to a library:
  the object of answers it returns (validated and filtered there) is the parameter
  \<open>answers\<close>.
\<close>

definition claim_data_of_options :: "claim_options \<Rightarrow> jsval" where
  "claim_data_of_options opts =
     Obj [(''claim'', opt_val (c_claim opts)),
          (''evidence'', (if truthy (opt_val (c_evidence opts))
                          then Arr (map (\<lambda>e. Str (trim e))
                                     (split_on (CHR '','') (js_toString (opt_val (c_evidence opts)))))
                          else Null)),
          (''type'', opt_val (c_type opts)),
          (''semantic'', Obj [(''subject'', opt_val (c_subject opts)),
                              (''predicate'', opt_val (c_predicate opts)),
                              (''object'', opt_val (c_object opts))])]"

definition claim_interactive :: "claim_options \<Rightarrow> bool" where
  "claim_interactive opts =
     (let claimData = claim_data_of_options opts in
      c_interactive opts \<or> \<not> truthy (js_prop claimData ''claim'')
      \<or> \<not> truthy (js_prop claimData ''evidence'') \<or> \<not> truthy (js_prop claimData ''type'')
      \<or> \<not> truthy (js_prop (js_prop claimData ''semantic'') ''subject'')
      \<or> \<not> truthy (js_prop (js_prop claimData ''semantic'') ''predicate'')
      \<or> \<not> truthy (js_prop (js_prop claimData ''semantic'') ''object''))"

definition claim_data :: "claim_options \<Rightarrow> jsval \<Rightarrow> jsval" where
  "claim_data opts answers =
     (if claim_interactive opts then
        Obj [(''claim'', js_prop answers ''claim''),
             (''evidence'', js_prop answers ''evidence''),
             (''type'', js_prop answers ''type''),
             (''semantic'', Obj [(''subject'', js_prop answers ''subject''),
                                 (''predicate'', js_prop answers ''predicate''),
                                 (''object'', js_prop answers ''object'')])]
      else claim_data_of_options opts)"

text \<open>The claim data with timestamp, public key and parent, and the canonical string signed.\<close>

definition stamp_claim :: "jsval \<Rightarrow> jsval \<Rightarrow> int \<Rightarrow> jsval" where
  "stamp_claim claimData keyPair now =
     js_set (js_set (js_set claimData ''timestamp'' (Num (Whole now)))
               ''publicKey'' (js_prop keyPair ''publicKey''))
       ''parent_id'' Null"

definition claim_payload :: "jsval \<Rightarrow> string option" where
  "claim_payload claimData =
     JSON_stringify (Obj [(''claim'', js_prop claimData ''claim''),
                          (''evidence'', js_prop claimData ''evidence''),
                          (''publicKey'', js_prop claimData ''publicKey''),
                          (''type'', js_prop claimData ''type''),
                          (''parent_id'', js_prop claimData ''parent_id''),
                          (''timestamp'', js_prop claimData ''timestamp''),
                          (''semantic'', js_prop claimData ''semantic'')])"

definition cmd_claim_create :: "claim_options \<Rightarrow> jsval \<Rightarrow> signer \<Rightarrow> (request \<Rightarrow> http_result) \<Rightarrow>
    int \<Rightarrow> cli \<Rightarrow> js_error + cli" where
  "cmd_claim_create opts answers signer net now st =
     (let keyPair = js_prop (config st) ''keyPair'' in
      if \<not> truthy (js_prop (config st) ''token'') \<or> \<not> truthy keyPair then
        Inr (console_log ''Error: You must be logged in to create a claim'' st)
      else
        (let claimData = stamp_claim (claim_data opts answers) keyPair now in
             (case claim_payload claimData of
                None \<Rightarrow> Inl (TypeError ''data'')
              | Some payload \<Rightarrow>
                  (case signData signer payload (js_prop keyPair ''privateKey'') of
                     Inl e \<Rightarrow> Inl e
                   | Inr signature \<Rightarrow>
                       (case api_post net ''/api/claim''
                               (js_set claimData ''signature'' (Str signature))
                               (console_log ''Creating claim...'' st) of
                          (None, st2) \<Rightarrow> Inr (console_log ''Failed to create claim'' st2)
                        | (Some d, st2) \<Rightarrow> Inr (console_log ''Claim created successfully'' st2))))))"

record proof_options =
  p_interactive :: bool
  p_claimId :: "string option"
  p_action :: "string option"
  p_reason :: "string option"
  p_confidence :: "string option"

definition proof_data_of_options :: "proof_options \<Rightarrow> jsval" where
  "proof_data_of_options opts =
     Obj [(''claimId'', opt_val (p_claimId opts)),
          (''action'', opt_val (p_action opts)),
          (''reason'', opt_val (p_reason opts)),
          (''confidence'', (if truthy (opt_val (p_confidence opts))
                            then Num (parseFloat (js_toString (opt_val (p_confidence opts))))
                            else Num (Whole 1)))]"

definition proof_interactive :: "proof_options \<Rightarrow> bool" where
  "proof_interactive opts =
     (let proofData = proof_data_of_options opts in
      p_interactive opts \<or> \<not> truthy (js_prop proofData ''claimId'')
      \<or> \<not> truthy (js_prop proofData ''action''))"

text \<open>
  The check of the confidence prompt in interactive mode (\<open>validate\<close>): the input,
  read as a float, is a number between 0 and 1.
\<close>

fun num_le :: "jsnum \<Rightarrow> jsnum \<Rightarrow> bool" where
  "num_le NaN y = False"
| "num_le x NaN = False"
| "num_le NInf y = True"
| "num_le x PInf = True"
| "num_le PInf y = False"
| "num_le x NInf = False"
| "num_le (Whole a) (Whole b) = (a \<le> b)"
| "num_le (Whole a) (Frac m d) = (a * 10 ^ d \<le> m)"
| "num_le (Frac m d) (Whole b) = (m \<le> b * 10 ^ d)"
| "num_le (Frac m d) (Frac m' d') = (m * 10 ^ d' \<le> m' * 10 ^ d)"

definition validate_confidence :: "string \<Rightarrow> bool" where
  "validate_confidence inp =
     (let v = parseFloat inp in v \<noteq> NaN \<and> num_le (Whole 0) v \<and> num_le v (Whole 1))"

definition proof_data :: "proof_options \<Rightarrow> jsval \<Rightarrow> jsval" where
  "proof_data opts answers =
     (if proof_interactive opts then
        Obj [(''claimId'', js_prop answers ''claimId''),
             (''action'', js_prop answers ''action''),
             (''reason'', js_prop answers ''reason''),
             (''confidence'', js_prop answers ''confidence'')]
      else proof_data_of_options opts)"

definition stamp_proof :: "jsval \<Rightarrow> jsval \<Rightarrow> int \<Rightarrow> jsval" where
  "stamp_proof proofData keyPair now =
     js_set (js_set proofData ''timestamp'' (Num (Whole now)))
       ''publicKey'' (js_prop keyPair ''publicKey'')"

definition proof_payload :: "jsval \<Rightarrow> string option" where
  "proof_payload proofData =
     JSON_stringify (Obj [(''claimId'', js_prop proofData ''claimId''),
                          (''action'', js_prop proofData ''action''),
                          (''publicKey'', js_prop proofData ''publicKey''),
                          (''timestamp'', js_prop proofData ''timestamp''),
                          (''reason'', js_prop proofData ''reason''),
                          (''confidence'', js_prop proofData ''confidence'')])"

definition cmd_proof_add :: "proof_options \<Rightarrow> jsval \<Rightarrow> signer \<Rightarrow> (request \<Rightarrow> http_result) \<Rightarrow>
    int \<Rightarrow> cli \<Rightarrow> js_error + cli" where
  "cmd_proof_add opts answers signer net now st =
     (let keyPair = js_prop (config st) ''keyPair'' in
      if \<not> truthy (js_prop (config st) ''token'') \<or> \<not> truthy keyPair then
        Inr (console_log ''Error: You must be logged in to add a proof'' st)
      else
        (let proofData = stamp_proof (proof_data opts answers) keyPair now in
             (case proof_payload proofData of
                None \<Rightarrow> Inl (TypeError ''data'')
              | Some payload \<Rightarrow>
                  (case signData signer payload (js_prop keyPair ''privateKey'') of
                     Inl e \<Rightarrow> Inl e
                   | Inr signature \<Rightarrow>
                       (case api_post net ''/api/proof''
                               (js_set proofData ''signature'' (Str signature))
                               (console_log ''Adding proof...'' st) of
                          (None, st2) \<Rightarrow> Inr (console_log ''Failed to add proof'' st2)
                        | (Some d, st2) \<Rightarrow> Inr (console_log ''Proof added successfully'' st2))))))"

text \<open>
  A run of the program: \<open>initConfig()\<close> first, then the command of the command line.
  An error that \<open>initConfig\<close> does not catch ends the process before the command.
\<close>

definition run :: "(cli \<Rightarrow> cli) \<Rightarrow> world \<Rightarrow> js_error + cli" where
  "run cmd w = (case initConfig (start w) of Inl e \<Rightarrow> Inl e | Inr st \<Rightarrow> Inr (cmd st))"

section \<open>The library class \<open>OtrustCLI\<close>\<close>

text \<open>
  An instance holds its own copy of the configuration, the server, the log level and the
  defaults of its HTTP client (base URL and authorization header). A method that can throw
  returns the error or the value, together with the state it leaves behind.
\<close>

record lib = world +
  this_server :: jsval
  this_config :: jsval
  this_logLevel :: string
  api_baseURL :: jsval
  api_authorization :: "string option"

text \<open>The messages of the library are Swedish; their non-ASCII letters are written as UTF-8 bytes.\<close>

definition a_ring :: string where "a_ring = [CHR 0xC3, CHR 0xA5]"
definition a_uml :: string where "a_uml = [CHR 0xC3, CHR 0xA4]"
definition o_uml :: string where "o_uml = [CHR 0xC3, CHR 0xB6]"

definition msg_no_keypair :: string where
  "msg_no_keypair = ''Inget nyckelpar konfigurerat. K'' @ o_uml @ ''r init() f'' @ o_uml @ ''rst.''"

definition msg_no_private_key :: string where
  "msg_no_private_key = ''Ingen privat nyckel konfigurerad''"

definition msg_login_claim :: string where
  "msg_login_claim = ''Du m'' @ a_ring @ ''ste vara inloggad f'' @ o_uml @ ''r att skapa p''
     @ a_ring @ ''st'' @ a_ring @ ''enden''"

definition msg_login_proof :: string where
  "msg_login_proof = ''Du m'' @ a_ring @ ''ste vara inloggad f'' @ o_uml @ ''r att l'' @ a_uml
     @ ''gga till bevis''"

definition msg_claim_failed :: string where
  "msg_claim_failed = ''Fel vid skapande av p'' @ a_ring @ ''st'' @ a_ring @ ''ende: ''"

definition msg_proof_failed :: string where
  "msg_proof_failed = ''Fel vid l'' @ a_uml @ ''ggning av bevis: ''"

definition level_index :: "string \<Rightarrow> nat option" where
  "level_index l =
     (if l = ''debug'' then Some 0 else if l = ''info'' then Some 1
      else if l = ''warn'' then Some 2 else if l = ''error'' then Some 3 else None)"

definition lib_log :: "string \<Rightarrow> string \<Rightarrow> lib \<Rightarrow> lib" where
  "lib_log level msg st =
     (case (level_index level, level_index (this_logLevel st)) of
        (Some a, Some b) \<Rightarrow> if b \<le> a then console_log (''[OTRUST] '' @ msg) st else st
      | _ \<Rightarrow> st)"

definition loadConfig :: "lib \<Rightarrow> lib" where
  "loadConfig st =
     (if existsSync_file st then
        (case readFileSync st of
           Inl e \<Rightarrow> lib_log ''error'' (''Fel vid laddning av konfiguration: '' @ message e) st
         | Inr d \<Rightarrow>
             (case JSON_parse d of
                Inl e \<Rightarrow> lib_log ''error'' (''Fel vid laddning av konfiguration: '' @ message e) st
              | Inr parsed \<Rightarrow>
                  (let cfg = spread2 (this_config st) parsed;
                       token = js_prop cfg ''token''
                   in lib_log ''debug'' ''Konfiguration laddad''
                        (st\<lparr>this_config := cfg,
                            this_server := js_prop cfg ''server'',
                            api_baseURL := js_prop cfg ''server'',
                            api_authorization :=
                              (if truthy token then Some (''Bearer '' @ js_toString token)
                               else api_authorization st)\<rparr>))))
      else st)"

record lib_options =
  o_server :: "string option"
  o_logLevel :: "string option"

text \<open>The constructor: the fields are set from the options, then \<open>_loadConfig\<close> runs.\<close>

definition lib_start :: "lib_options \<Rightarrow> world \<Rightarrow> lib" where
  "lib_start options w =
     (let server = js_or (opt_val (o_server options)) (Str ''http://localhost:3000'')
      in world.extend w
           (lib.fields server
              (Obj [(''server'', server), (''keyPair'', Null), (''token'', Null)])
              (js_toString (js_or (opt_val (o_logLevel options)) (Str ''info'')))
              server None))"

definition new_OtrustCLI :: "lib_options \<Rightarrow> world \<Rightarrow> lib" where
  "new_OtrustCLI options w = loadConfig (lib_start options w)"

definition lib_saveConfig :: "lib \<Rightarrow> js_error option \<times> lib" where
  "lib_saveConfig st =
     (case (if \<not> dir_exists st then mkdirSync st else Inr st) of
        Inl e \<Rightarrow> (Some e, lib_log ''error'' (''Fel vid sparande av konfiguration: '' @ message e) st)
      | Inr st1 \<Rightarrow>
          (case JSON_stringify2 (this_config st1) of
             None \<Rightarrow> (Some (TypeError ''data''),
                       lib_log ''error'' (''Fel vid sparande av konfiguration: '' @ ''data'') st1)
           | Some d \<Rightarrow>
               (case writeFileSync d st1 of
                  Inl e \<Rightarrow> (Some e, lib_log ''error'' (''Fel vid sparande av konfiguration: '' @ message e) st1)
                | Inr st2 \<Rightarrow> (None, lib_log ''debug'' ''Konfiguration sparad'' st2))))"


definition lib_sign :: "signer \<Rightarrow> string \<Rightarrow> jsval \<Rightarrow> lib \<Rightarrow> (js_error + string) \<times> lib" where
  "lib_sign signer d privateKey st =
     (let keyPair = js_prop (this_config st) ''keyPair'';
          key = js_or privateKey (if truthy keyPair then js_prop keyPair ''privateKey'' else Null);
          r = (if \<not> truthy key then Inl (Error msg_no_private_key) else signer d key)
      in case r of
           Inl e \<Rightarrow> (Inl e, lib_log ''error'' (''Fel vid signering: '' @ message e) st)
         | Inr sg \<Rightarrow> (Inr sg, st))"



text \<open>
  A \<open>post\<close> of the instance's client; its interceptor logs the failure. The text of
  \<open>error.message\<close> is the client library's.
\<close>

definition http_message :: "http_result \<Rightarrow> string" where
  "http_message r =
     (case r of
        HttpOk d \<Rightarrow> []
      | HttpError status statusText d \<Rightarrow> ''Request failed with status code '' @ show_nat status
      | NetworkError \<Rightarrow> ''Network Error'')"

definition lib_post :: "(request \<Rightarrow> http_result) \<Rightarrow> string \<Rightarrow> jsval \<Rightarrow> lib \<Rightarrow> http_result \<times> lib" where
  "lib_post net path b st =
     (let req = \<lparr>http_method = ''POST'', base = api_baseURL st, url = path, body = b,
                 authorization = api_authorization st\<rparr>;
          st1 = st\<lparr>requests := requests st @ [req]\<rparr>
      in (net req,
          (case net req of HttpOk d \<Rightarrow> st1
           | _ \<Rightarrow> lib_log ''error'' (''API Error: '' @ http_message (net req)) st1)))"

text \<open>
  \<open>register\<close> and \<open>login\<close>: the guard throws, a failure after the request is returned as
  \<open>{success: false, error}\<close>.
\<close>

definition auth_failure :: "jsval \<Rightarrow> jsval" where
  "auth_failure e = Obj [(''success'', Bool False), (''error'', e)]"

definition lib_auth :: "string \<Rightarrow> string \<Rightarrow> signer \<Rightarrow> (request \<Rightarrow> http_result) \<Rightarrow> int \<Rightarrow> lib \<Rightarrow>
    (js_error + jsval) \<times> lib" where
  "lib_auth action path signer net now st =
     (let keyPair = js_prop (this_config st) ''keyPair'' in
      if \<not> truthy keyPair then (Inl (Error msg_no_keypair), st)
      else
        (case auth_payload action keyPair now of
           None \<Rightarrow> (Inl (TypeError ''data''), st)
         | Some payload \<Rightarrow>
             (case lib_sign signer payload Undefined st of
                (Inl e, st1) \<Rightarrow> (Inl e, st1)
              | (Inr signature, st1) \<Rightarrow>
                  (case lib_post net path
                          (Obj [(''publicKey'', js_prop keyPair ''publicKey''),
                                (''signature'', Str signature),
                                (''timestamp'', Num (Whole now))]) st1 of
                     (HttpError status statusText d, st2) \<Rightarrow> (Inr (auth_failure d), st2)
                   | (NetworkError, st2) \<Rightarrow> (Inr (auth_failure (Str ''Network Error'')), st2)
                   | (HttpOk d, st2) \<Rightarrow>
                       (case js_get d ''token'' of
                          Inl e \<Rightarrow> (Inr (auth_failure (Str (message e))), st2)
                        | Inr token \<Rightarrow>
                            (case lib_saveConfig
                                    (st2\<lparr>this_config := js_set (this_config st2) ''token'' token,
                                         api_authorization := Some (''Bearer '' @ js_toString token)\<rparr>) of
                               (Some e, st3) \<Rightarrow> (Inr (auth_failure (Str (message e))), st3)
                             | (None, st3) \<Rightarrow>
                                 (Inr (Obj [(''success'', Bool True), (''user'', js_prop d ''user'')]),
                                  st3)))))))"

definition lib_register :: "signer \<Rightarrow> (request \<Rightarrow> http_result) \<Rightarrow> int \<Rightarrow> lib \<Rightarrow> (js_error + jsval) \<times> lib" where
  "lib_register = lib_auth ''register'' ''/api/auth/register''"

definition lib_login :: "signer \<Rightarrow> (request \<Rightarrow> http_result) \<Rightarrow> int \<Rightarrow> lib \<Rightarrow> (js_error + jsval) \<times> lib" where
  "lib_login = lib_auth ''login'' ''/api/auth/login''"

definition lib_logout :: "lib \<Rightarrow> (js_error + jsval) \<times> lib" where
  "lib_logout st =
     (case lib_saveConfig (st\<lparr>this_config := js_set (this_config st) ''token'' Null,
                              api_authorization := None\<rparr>) of
        (Some e, st1) \<Rightarrow> (Inl e, st1)
      | (None, st1) \<Rightarrow> (Inr (Obj [(''success'', Bool True)]), st1))"

definition buildClaimPayload :: "jsval \<Rightarrow> int \<Rightarrow> lib \<Rightarrow> js_error + string" where
  "buildClaimPayload claimData now st =
     (let keyPair = js_prop (this_config st) ''keyPair'' in
      if \<not> truthy keyPair then Inl (Error msg_no_keypair)
      else
        (case js_get claimData ''claim'' of
           Inl e \<Rightarrow> Inl e
         | Inr c \<Rightarrow>
             (case JSON_stringify
                     (Obj [(''claim'', c),
                           (''evidence'', js_prop claimData ''evidence''),
                           (''publicKey'', js_prop keyPair ''publicKey''),
                           (''type'', js_prop claimData ''type''),
                           (''parent_id'', js_or (js_prop claimData ''parent_id'') Null),
                           (''timestamp'', Num (Whole now)),
                           (''semantic'', js_prop claimData ''semantic'')]) of
                None \<Rightarrow> Inl (TypeError ''data'')
              | Some payload \<Rightarrow> Inr payload)))"

text \<open>The error that \<open>createClaim\<close> and \<open>addProof\<close> throw when the request fails.\<close>

definition request_error :: "string \<Rightarrow> http_result \<Rightarrow> js_error" where
  "request_error prefix r =
     (case r of
        HttpError status statusText d \<Rightarrow>
          (case js_get d ''error'' of
             Inl e \<Rightarrow> e
           | Inr v \<Rightarrow> Error (prefix @ js_toString v))
      | _ \<Rightarrow> Error (prefix @ http_message r))"

definition send_signed :: "string \<Rightarrow> string \<Rightarrow> string \<Rightarrow> signer \<Rightarrow> (request \<Rightarrow> http_result) \<Rightarrow> lib \<Rightarrow>
    (js_error + jsval) \<times> lib" where
  "send_signed path prefix payload signer net st =
     (case lib_sign signer payload Undefined st of
        (Inl e, st1) \<Rightarrow> (Inl e, st1)
      | (Inr signature, st1) \<Rightarrow>
          (case JSON_parse payload of
             Inl e \<Rightarrow> (Inl e, st1)
           | Inr obj \<Rightarrow>
               (case lib_post net path (js_set obj ''signature'' (Str signature)) st1 of
                  (HttpOk d, st2) \<Rightarrow> (Inr d, st2)
                | (r, st2) \<Rightarrow> (Inl (request_error prefix r), st2))))"

definition createClaim :: "jsval \<Rightarrow> signer \<Rightarrow> (request \<Rightarrow> http_result) \<Rightarrow> int \<Rightarrow> lib \<Rightarrow>
    (js_error + jsval) \<times> lib" where
  "createClaim claimData signer net now st =
     (if \<not> truthy (js_prop (this_config st) ''token'') then (Inl (Error msg_login_claim), st)
      else
        (case buildClaimPayload claimData now st of
           Inl e \<Rightarrow> (Inl e, st)
         | Inr payload \<Rightarrow> send_signed ''/api/claim'' msg_claim_failed payload signer net st))"

definition addProof_payload :: "jsval \<Rightarrow> int \<Rightarrow> lib \<Rightarrow> js_error + string" where
  "addProof_payload proofData now st =
     (case js_get proofData ''claimId'' of
        Inl e \<Rightarrow> Inl e
      | Inr claimId \<Rightarrow>
          (case js_get (js_prop (this_config st) ''keyPair'') ''publicKey'' of
             Inl e \<Rightarrow> Inl e
           | Inr publicKey \<Rightarrow>
               (case JSON_stringify
                       (Obj [(''claimId'', claimId),
                             (''action'', js_prop proofData ''action''),
                             (''publicKey'', publicKey),
                             (''timestamp'', Num (Whole now)),
                             (''reason'', js_prop proofData ''reason''),
                             (''confidence'', js_prop proofData ''confidence'')]) of
                  None \<Rightarrow> Inl (TypeError ''data'')
                | Some payload \<Rightarrow> Inr payload)))"

definition addProof :: "jsval \<Rightarrow> signer \<Rightarrow> (request \<Rightarrow> http_result) \<Rightarrow> int \<Rightarrow> lib \<Rightarrow>
    (js_error + jsval) \<times> lib" where
  "addProof proofData signer net now st =
     (if \<not> truthy (js_prop (this_config st) ''token'') then (Inl (Error msg_login_proof), st)
      else
        (case addProof_payload proofData now st of
           Inl e \<Rightarrow> (Inl e, st)
         | Inr payload \<Rightarrow> send_signed ''/api/proof'' msg_proof_failed payload signer net st))"

section \<open>Notions used in the statements\<close>

text \<open>
  A configuration as the data model describes it: a server URL, a key pair of two PEM
  strings or none, a token or none. The program stores absent parts as \<open>null\<close>.
\<close>

definition keypair_obj :: "string \<times> string \<Rightarrow> jsval" where
  "keypair_obj kp = Obj [(''publicKey'', Str (fst kp)), (''privateKey'', Str (snd kp))]"

definition mk_config :: "string \<Rightarrow> (string \<times> string) option \<Rightarrow> string option \<Rightarrow> jsval" where
  "mk_config server kp tok =
     Obj [(''server'', Str server),
          (''keyPair'', (case kp of None \<Rightarrow> Null | Some p \<Rightarrow> keypair_obj p)),
          (''token'', (case tok of None \<Rightarrow> Null | Some t \<Rightarrow> Str t))]"

text \<open>
  The state in which an interrupted \<open>saveConfig\<close> (or \<open>_saveConfig\<close>) leaves the world,
  when the process is stopped after \<open>k\<close> bytes of the new file have been written.
\<close>

definition saveConfig_interrupted :: "nat \<Rightarrow> cli \<Rightarrow> cli" where
  "saveConfig_interrupted k st =
     (case JSON_stringify2 (config st) of
        None \<Rightarrow> st
      | Some d \<Rightarrow> writeFileSync_interrupted k d st)"

definition lib_saveConfig_interrupted :: "nat \<Rightarrow> lib \<Rightarrow> lib" where
  "lib_saveConfig_interrupted k st =
     (case (if \<not> dir_exists st then mkdirSync st else Inr st) of
        Inl e \<Rightarrow> st
      | Inr st1 \<Rightarrow>
          (case JSON_stringify2 (this_config st1) of
             None \<Rightarrow> st1
           | Some d \<Rightarrow> writeFileSync_interrupted k d st1))"

text \<open>The keys of a payload string, in order, as a verifier that parses the string sees them.\<close>

definition payload_keys :: "string \<Rightarrow> string list option" where
  "payload_keys s = (case JSON_parse s of Inr (Obj kvs) \<Rightarrow> Some (map fst kvs) | _ \<Rightarrow> None)"

text \<open>Sample worlds and configurations at which the statements are evaluated.\<close>

definition world0 :: world where
  "world0 = \<lparr>dir_exists = True, config_file = None, can_read = True, can_write = True,
              console = [], requests = []\<rparr>"

definition config1 :: jsval where
  "config1 = mk_config ''http://h'' (Some (''PUB'', ''PRIV'')) (Some ''tok'')"

definition file1 :: string where
  "file1 = (case JSON_stringify2 config1 of None \<Rightarrow> [] | Some d \<Rightarrow> d)"

definition world1 :: world where
  "world1 = world0\<lparr>config_file := Some file1\<rparr>"

definition world_unreadable :: world where
  "world_unreadable = world1\<lparr>can_read := False\<rparr>"

definition world_readonly :: world where
  "world_readonly = world1\<lparr>can_write := False\<rparr>"

definition options0 :: lib_options where
  "options0 = \<lparr>o_server = None, o_logLevel = None\<rparr>"

text \<open>The defaults of a library instance: the server of the options, or the default server.\<close>

definition lib_default_config :: "lib_options \<Rightarrow> jsval" where
  "lib_default_config options =
     Obj [(''server'', js_or (opt_val (o_server options)) (Str ''http://localhost:3000'')),
          (''keyPair'', Null), (''token'', Null)]"

text \<open>
  The states of the command-line program and of a library instance that have loaded
  \<open>config1\<close> from \<open>file1\<close>.
\<close>

definition cli1 :: cli where
  "cli1 = (start world1)\<lparr>config := config1\<rparr>"

definition lib1 :: lib where
  "lib1 = (lib_start options0 world1)\<lparr>this_config := config1\<rparr>"

text \<open>
  The members that \<open>JSON.stringify\<close> prints for an object: one \<open>"key":value\<close> for each
  property whose value is not \<open>undefined\<close>, in order.
\<close>

definition members :: "(string \<times> jsval) list \<Rightarrow> string list" where
  "members kvs = concat (map (\<lambda>kv. case ser [] [] (snd kv) of None \<Rightarrow> []
                                    | Some t \<Rightarrow> [quote (fst kv) @ '':'' @ t]) kvs)"

text \<open>
  Options of \<open>proof:add\<close>, a signer, a server, a library state with a token and no key
  pair, and the data of a proof and of a claim.
\<close>

definition proof_opts_empty :: proof_options where
  "proof_opts_empty = \<lparr>p_interactive = False, p_claimId = Some ''c1'', p_action = Some ''confirmed'',
                        p_reason = None, p_confidence = Some []\<rparr>"

definition proof_opts_five :: proof_options where
  "proof_opts_five = \<lparr>p_interactive = False, p_claimId = Some ''c1'', p_action = Some ''confirmed'',
                       p_reason = Some ''seen'', p_confidence = Some ''5''\<rparr>"

definition signer1 :: signer where
  "signer1 d k = Inr ''5e1f''"

definition net1 :: "request \<Rightarrow> http_result" where
  "net1 req = HttpOk (Obj [(''id'', Str ''c1'')])"

definition lib_nokey :: lib where
  "lib_nokey = (lib_start options0 world0)\<lparr>this_config := mk_config ''http://h'' None (Some ''tok'')\<rparr>"

definition proof1 :: jsval where
  "proof1 = Obj [(''claimId'', Str ''c1''), (''action'', Str ''confirmed''),
                 (''reason'', Str ''seen''), (''confidence'', Num (Frac 9 1))]"

definition claim1 :: jsval where
  "claim1 = Obj [(''claim'', Str ''Stockholm is the capital of Sweden''),
                 (''evidence'', Arr [Str ''https://e.example/1'']),
                 (''type'', Str ''factual''),
                 (''semantic'', Obj [(''subject'', Str ''Stockholm''),
                                     (''predicate'', Str ''capital of''),
                                     (''object'', Str ''Sweden'')])]"

text \<open>
  The confidence that non-interactive \<open>proof:add\<close> derives from the \<open>--confidence\<close> flag.
\<close>

definition flag_confidence :: "string option \<Rightarrow> jsnum" where
  "flag_confidence flag = (case flag of None \<Rightarrow> Whole 1 | Some s \<Rightarrow> if s = [] then Whole 1 else parseFloat s)"

text \<open>
  The typed inputs of the payload builders: the fields of a claim as a caller of the library
  passes them (\<open>claimData_of\<close>) or as the options of \<open>claim:create\<close> give them
  (\<open>fields_of_options\<close>), and the fields of a proof. \<open>norm_parent\<close> is what
  \<open>claimData.parent_id || null\<close> keeps of the parent.

  The canonical strings, written out: the fields of each action kind in the order of the
  wire contract, without white space; the reason of a proof is present only when given.
\<close>

record claim_fields =
  f_claim :: string
  f_evidence :: "string list"
  f_type :: string
  f_parent :: "string option"
  f_subject :: string
  f_predicate :: string
  f_object :: string

definition claimData_of :: "claim_fields \<Rightarrow> jsval" where
  "claimData_of f =
     Obj [(''claim'', Str (f_claim f)),
          (''evidence'', Arr (map Str (f_evidence f))),
          (''type'', Str (f_type f)),
          (''parent_id'', (case f_parent f of None \<Rightarrow> Null | Some p \<Rightarrow> Str p)),
          (''semantic'', Obj [(''subject'', Str (f_subject f)),
                              (''predicate'', Str (f_predicate f)),
                              (''object'', Str (f_object f))])]"

definition norm_parent :: "string option \<Rightarrow> string option" where
  "norm_parent p = (case p of None \<Rightarrow> None | Some s \<Rightarrow> if s = [] then None else Some s)"

definition canonical_auth :: "string \<Rightarrow> string \<Rightarrow> int \<Rightarrow> string" where
  "canonical_auth action P T =
     ''{\"action\":'' @ quote action @ '',\"publicKey\":'' @ quote P
       @ '',\"timestamp\":'' @ show_int T @ ''}''"

definition canonical_claim :: "string \<Rightarrow> int \<Rightarrow> claim_fields \<Rightarrow> string" where
  "canonical_claim P T f =
     ''{\"claim\":'' @ quote (f_claim f)
       @ '',\"evidence\":['' @ join '','' (map quote (f_evidence f)) @ '']''
       @ '',\"publicKey\":'' @ quote P
       @ '',\"type\":'' @ quote (f_type f)
       @ '',\"parent_id\":'' @ (case norm_parent (f_parent f) of None \<Rightarrow> ''null'' | Some p \<Rightarrow> quote p)
       @ '',\"timestamp\":'' @ show_int T
       @ '',\"semantic\":{\"subject\":'' @ quote (f_subject f)
       @ '',\"predicate\":'' @ quote (f_predicate f)
       @ '',\"object\":'' @ quote (f_object f) @ ''}}''"

definition canonical_proof :: "string \<Rightarrow> int \<Rightarrow> string \<Rightarrow> string \<Rightarrow> string option \<Rightarrow> jsnum \<Rightarrow> string" where
  "canonical_proof P T claimId action reason confidence =
     ''{\"claimId\":'' @ quote claimId
       @ '',\"action\":'' @ quote action
       @ '',\"publicKey\":'' @ quote P
       @ '',\"timestamp\":'' @ show_int T
       @ (case reason of None \<Rightarrow> [] | Some r \<Rightarrow> '',\"reason\":'' @ quote r)
       @ '',\"confidence\":'' @ json_num confidence @ ''}''"

definition opt_str :: "string option \<Rightarrow> string" where
  "opt_str x = (case x of None \<Rightarrow> [] | Some s \<Rightarrow> s)"

definition fields_of_options :: "claim_options \<Rightarrow> claim_fields" where
  "fields_of_options opts =
     \<lparr>f_claim = opt_str (c_claim opts),
      f_evidence = map trim (split_on (CHR '','') (opt_str (c_evidence opts))),
      f_type = opt_str (c_type opts),
      f_parent = None,
      f_subject = opt_str (c_subject opts),
      f_predicate = opt_str (c_predicate opts),
      f_object = opt_str (c_object opts)\<rparr>"

definition proofData_of :: "string \<Rightarrow> string \<Rightarrow> string option \<Rightarrow> jsnum \<Rightarrow> jsval" where
  "proofData_of claimId action reason confidence =
     Obj ([(''claimId'', Str claimId), (''action'', Str action)]
          @ (case reason of None \<Rightarrow> [] | Some r \<Rightarrow> [(''reason'', Str r)])
          @ [(''confidence'', Num confidence)])"

definition proof_opts_noreason :: proof_options where
  "proof_opts_noreason = \<lparr>p_interactive = False, p_claimId = Some ''c1'', p_action = Some ''confirmed'',
                        p_reason = None, p_confidence = None\<rparr>"

definition claim_opts1 :: claim_options where
  "claim_opts1 = \<lparr>c_interactive = False, c_claim = Some ''Stockholm is the capital of Sweden'',
                   c_evidence = Some ''https://e.example/1, https://e.example/2'',
                   c_type = Some ''factual'', c_subject = Some ''Stockholm'',
                   c_predicate = Some ''capital of'', c_object = Some ''Sweden''\<rparr>"

definition fields1 :: claim_fields where
  "fields1 = \<lparr>f_claim = ''Stockholm is the capital of Sweden'',
               f_evidence = [''https://e.example/1'', ''https://e.example/2''],
               f_type = ''factual'', f_parent = None, f_subject = ''Stockholm'',
               f_predicate = ''capital of'', f_object = ''Sweden''\<rparr>"

text \<open>A library state with the same key pair but another server, no token, and another log.\<close>

definition lib_other :: lib where
  "lib_other = (lib_start options0 world_readonly)\<lparr>this_config :=
                   mk_config ''http://other'' (Some (''PUB'', ''PRIV'')) None\<rparr>"









section \<open>Basic facts\<close>

lemma start_simps:
  "config (start w) = default_config" "dir_exists (start w) = dir_exists w"
  "config_file (start w) = config_file w" "can_read (start w) = can_read w"
  "can_write (start w) = can_write w" "console (start w) = console w"
  "requests (start w) = requests w"
  by (simp_all add: start_def world.defs cli.defs)

lemma truncate_simps:
  "dir_exists (world.truncate st) = dir_exists st"
  "config_file (world.truncate st) = config_file st"
  "can_read (world.truncate st) = can_read st"
  "can_write (world.truncate st) = can_write st"
  "console (world.truncate st) = console st"
  "requests (world.truncate st) = requests st"
  by (simp_all add: world.defs)

subsection \<open>Strings survive quoting and parsing\<close>

lemma hex_val_hex_digit: "k < 16 \<Longrightarrow> hex_val (hex_digit k) = Some k"
proof -
  assume "k < 16"
  then have "k = 0 \<or> k = 1 \<or> k = 2 \<or> k = 3 \<or> k = 4 \<or> k = 5 \<or> k = 6 \<or> k = 7
    \<or> k = 8 \<or> k = 9 \<or> k = 10 \<or> k = 11 \<or> k = 12 \<or> k = 13 \<or> k = 14 \<or> k = 15"
    by arith
  then show ?thesis
    by (elim disjE) (simp_all add: hex_val_def hex_digit_def is_digit_def)
qed

lemma hex4_control:
  assumes n: "n < 32"
  shows "hex4 (CHR ''0'') (CHR ''0'') (hex_digit (n div 16)) (hex_digit (n mod 16)) = Some n"
proof -
  have a: "hex_val (hex_digit (n div 16)) = Some (n div 16)"
    using n by (intro hex_val_hex_digit) simp
  have b: "hex_val (hex_digit (n mod 16)) = Some (n mod 16)"
    by (intro hex_val_hex_digit) simp
  have z: "hex_val (CHR ''0'') = Some 0"
    by (simp add: hex_val_def is_digit_def)
  show ?thesis by (simp add: hex4_def a b z)
qed

lemma parse_escape_char:
  "parse_string_body (escape_char c @ t) =
     (case parse_string_body t of None \<Rightarrow> None | Some (s, r) \<Rightarrow> Some (c # s, r))"
proof (cases "(of_char c :: nat) < 32 \<and> c \<notin> {CHR 0x08, CHR 0x09, CHR 0x0A, CHR 0x0C, CHR 0x0D}")
  case True
  then have n: "(of_char c :: nat) < 32" by simp
  have ne: "c \<noteq> CHR 0x22" "c \<noteq> CHR 0x5C" using n by auto
  have ls: "low_surrogate (of_char c) t = None"
    using n by (auto simp: low_surrogate_def split: list.splits)
  have u: "utf8 (of_char c) = [c]" using n by (simp add: utf8_def)
  from True ne show ?thesis
    by (simp add: escape_char_def hex4_control[OF n] ls u split: option.splits)
next
  case False
  then show ?thesis
    by (auto simp: escape_char_def unescape_def split: option.splits)
qed

lemma parse_escape: "parse_string_body (escape s @ CHR 0x22 # rest) = Some (s, rest)"
proof (induction s)
  case Nil
  show ?case by (simp add: escape_def)
next
  case (Cons c s)
  have "escape (c # s) = escape_char c @ escape s" by (simp add: escape_def)
  then show ?case using Cons by (simp add: parse_escape_char)
qed

subsection \<open>A configuration survives \<open>JSON.stringify(config, null, 2)\<close> and \<open>JSON.parse\<close>\<close>

lemma stringify2_config_defined: "\<exists>d. JSON_stringify2 (mk_config s kp tok) = Some d"
  by (simp add: JSON_stringify2_def mk_config_def)

lemma parse_config:
  "JSON_stringify2 (mk_config s kp tok) = Some d \<Longrightarrow> JSON_parse d = Inr (mk_config s kp tok)"
  by (cases kp; cases tok)
     (auto simp: JSON_stringify2_def mk_config_def keypair_obj_def wrap_json_def quote_def
        JSON_parse_def skip_ws_def is_ws_def parse_escape obj_of_members_def literal_def
        is_digit_def)

lemma spread2_config: "spread2 (mk_config s' kp' tok') (mk_config s kp tok) = mk_config s kp tok"
  by (simp add: spread2_def mk_config_def)

lemma default_config_mk: "default_config = mk_config ''http://localhost:3000'' None None"
  by (simp add: default_config_def mk_config_def)

lemma saveConfig_ok:
  assumes "dir_exists st" "can_write st" "JSON_stringify2 (config st) = Some d"
  shows "saveConfig st = st\<lparr>config_file := Some d\<rparr>"
  using assms by (simp add: saveConfig_def writeFileSync_def)

lemma initConfig_ok:
  assumes "dir_exists st" "can_read st" "config_file st = Some d" "JSON_parse d = Inr parsed"
  shows "initConfig st = Inr (st\<lparr>config := spread2 (config st) parsed\<rparr>)"
  using assms by (simp add: initConfig_def existsSync_file_def readFileSync_def)

section \<open>Persistence of the configuration: auxiliary facts\<close>

lemma lib_start_simps:
  "this_config (lib_start options w) = lib_default_config options"
  "dir_exists (lib_start options w) = dir_exists w"
  "config_file (lib_start options w) = config_file w" "can_read (lib_start options w) = can_read w"
  "can_write (lib_start options w) = can_write w" "console (lib_start options w) = console w"
  "requests (lib_start options w) = requests w"
  by (simp_all add: lib_start_def lib_default_config_def Let_def world.defs lib.defs)

lemma obj_lookup_set: "obj_lookup (obj_set kvs k v) k' = (if k' = k then v else obj_lookup kvs k')"
  by (induction kvs) auto

lemma stringify2_obj: "\<exists>d. JSON_stringify2 (Obj kvs) = Some d"
  by (simp add: JSON_stringify2_def)

lemma stringify2_default: "\<exists>d. JSON_stringify2 default_config = Some d"
  unfolding default_config_mk by (rule stringify2_config_defined)

lemma stringify2_config_inj:
  assumes "JSON_stringify2 (mk_config s kp tok) = JSON_stringify2 (mk_config s' kp' tok')"
  shows "mk_config s kp tok = mk_config s' kp' tok'"
proof -
  obtain d where d: "JSON_stringify2 (mk_config s kp tok) = Some d"
    using stringify2_config_defined by blast
  have "JSON_parse d = Inr (mk_config s kp tok)" using d by (rule parse_config)
  moreover have "JSON_parse d = Inr (mk_config s' kp' tok')"
    using d assms by (intro parse_config) simp
  ultimately show ?thesis by simp
qed

lemma file1_config1: "JSON_stringify2 config1 = Some file1"
  using stringify2_config_defined [of "''http://h''" "Some (''PUB'', ''PRIV'')" "Some ''tok''"]
  by (auto simp: file1_def config1_def)

subsection \<open>Loading without a file\<close>

lemma initConfig_no_file:
  assumes "config_file w = None" "can_write w"
  shows "initConfig (start w) =
           Inr ((start w)\<lparr>dir_exists := True, config_file := JSON_stringify2 default_config\<rparr>)"
proof -
  obtain d where d: "JSON_stringify2 default_config = Some d"
    using stringify2_default by blast
  show ?thesis
    using assms
    by (cases "dir_exists w")
       (simp_all add: initConfig_def mkdirSync_def existsSync_file_def start_simps saveConfig_def
          writeFileSync_def d)
qed

lemma new_OtrustCLI_no_file:
  assumes "config_file w = None"
  shows "new_OtrustCLI options w = lib_start options w"
  using assms
  by (simp add: new_OtrustCLI_def loadConfig_def existsSync_file_def lib_start_simps)

text \<open>
  C7, as stated, fails for the library: \<open>_loadConfig\<close> without a file returns the defaults
  and writes nothing, so the file is still absent after the constructor.
\<close>

theorem library_load_does_not_persist:
  "config_file world0 = None \<and> config_file (new_OtrustCLI options0 world0) = None"
  by (simp add: world0_def new_OtrustCLI_def loadConfig_def existsSync_file_def lib_start_simps)

text \<open>
  C7, amended. With no configuration file present and a writable file system, \<open>initConfig\<close>
  of the command-line program returns the default configuration without an error, prints
  nothing, and writes the defaults to the file. The library's \<open>_loadConfig\<close> also returns
  the defaults (with the server of the constructor's options) without an error, but does not
  write the file.
\<close>

theorem load_without_file:
  assumes "config_file w = None" "can_write w"
  shows "(\<exists>st. initConfig (start w) = Inr st \<and> config st = default_config
               \<and> config_file st = JSON_stringify2 default_config
               \<and> JSON_stringify2 default_config \<noteq> None
               \<and> console st = console w)
       \<and> this_config (new_OtrustCLI options w) = lib_default_config options
       \<and> config_file (new_OtrustCLI options w) = None
       \<and> console (new_OtrustCLI options w) = console w"
proof -
  have "\<exists>st. initConfig (start w) = Inr st \<and> config st = default_config
               \<and> config_file st = JSON_stringify2 default_config
               \<and> JSON_stringify2 default_config \<noteq> None
               \<and> console st = console w"
    using stringify2_default by (auto simp: initConfig_no_file [OF assms] start_simps)
  then show ?thesis
    using assms(1) by (simp add: new_OtrustCLI_no_file lib_start_simps)
qed

theorem load_without_file_witness:
  "config_file world0 = None \<and> can_write world0
   \<and> (\<exists>st. initConfig (start world0) = Inr st \<and> config st = default_config
             \<and> config_file st = JSON_stringify2 default_config
             \<and> JSON_stringify2 default_config \<noteq> None
             \<and> console st = console world0)
   \<and> this_config (new_OtrustCLI options0 world0) = lib_default_config options0
   \<and> config_file (new_OtrustCLI options0 world0) = None
   \<and> console (new_OtrustCLI options0 world0) = console world0"
proof -
  have h: "config_file world0 = None" "can_write world0"
    by (simp_all add: world0_def)
  show ?thesis
    using h load_without_file [OF h, of options0] by simp
qed

subsection \<open>Errors of the file system\<close>

lemma initConfig_load_error:
  assumes "dir_exists st" "config_file st = Some d" "\<not> can_read st \<or> JSON_parse d = Inl e"
  shows "\<exists>m. initConfig st = Inr (console_log (''Error loading config file: '' @ m) st)"
  using assms
  by (auto simp: initConfig_def existsSync_file_def readFileSync_def split: sum.splits)

lemma saveConfig_write_error:
  assumes "\<not> can_write st" "config st = Obj kvs"
  shows "saveConfig st = console_log (''Error saving config file: '' @ ''write'') st"
proof -
  obtain d where "JSON_stringify2 (config st) = Some d"
    using assms(2) stringify2_obj by auto
  then show ?thesis using assms by (simp add: saveConfig_def writeFileSync_def)
qed

lemma loadConfig_load_error:
  assumes "dir_exists l" "config_file l = Some d" "\<not> can_read l \<or> JSON_parse d = Inl e"
  shows "\<exists>m. loadConfig l = lib_log ''error'' (''Fel vid laddning av konfiguration: '' @ m) l"
  using assms
  by (auto simp: loadConfig_def existsSync_file_def readFileSync_def split: sum.splits)

lemma lib_saveConfig_write_error:
  assumes "\<not> can_write l" "this_config l = Obj kvs"
  shows "\<exists>e. lib_saveConfig l
           = (Some e, lib_log ''error'' (''Fel vid sparande av konfiguration: '' @ message e) l)"
proof -
  obtain d where "JSON_stringify2 (this_config l) = Some d"
    using assms(2) stringify2_obj by auto
  then show ?thesis using assms by (simp add: lib_saveConfig_def writeFileSync_def mkdirSync_def)
qed

lemma cmd_config_after_load_error:
  assumes "dir_exists w" "config_file w = Some d" "\<not> can_read w \<or> JSON_parse d = Inl e"
    "can_write w" "u \<noteq> []"
  shows "\<exists>st. run (cmd_config (Some u) False) w = Inr st
      \<and> config st = mk_config u None None
      \<and> config_file st = JSON_stringify2 (mk_config u None None)
      \<and> (\<exists>m. console st = console w @ [''Error loading config file: '' @ m, ''Server URL updated: '' @ u])"
proof -
  obtain m where m: "initConfig (start w) = Inr (console_log (''Error loading config file: '' @ m) (start w))"
    using initConfig_load_error [of "start w" d e] assms by (auto simp: start_simps)
  obtain d' where d': "JSON_stringify2 (mk_config u None None) = Some d'"
    using stringify2_config_defined by blast
  have set: "js_set default_config ''server'' (Str u) = mk_config u None None"
    by (simp add: default_config_def mk_config_def)
  show ?thesis
    using assms d'
    by (simp add: run_def m cmd_config_def opt_val_def Let_def set saveConfig_def writeFileSync_def
        console_log_def start_simps mk_config_def)
qed

text \<open>
  C8, as stated, fails. The file holds a configuration with a key pair and a token but cannot
  be read. \<open>otrust-cli config --server http://x\<close> reports the error, goes on with the
  defaults, and writes them over the file: key pair and token are gone from the disk.
\<close>

theorem overwrite_after_unreadable:
  "map_sum id config_file (run (cmd_config (Some ''http://x'') False) world_unreadable)
     = Inr (JSON_stringify2 (mk_config ''http://x'' None None))
   \<and> config_file world_unreadable = JSON_stringify2 config1
   \<and> JSON_stringify2 (mk_config ''http://x'' None None) \<noteq> JSON_stringify2 config1"
proof -
  have w: "dir_exists world_unreadable" "config_file world_unreadable = Some file1"
    "\<not> can_read world_unreadable" "can_write world_unreadable"
    by (simp_all add: world_unreadable_def world1_def world0_def)
  obtain st where st: "run (cmd_config (Some ''http://x'') False) world_unreadable = Inr st"
    "config_file st = JSON_stringify2 (mk_config ''http://x'' None None)"
    using cmd_config_after_load_error [of world_unreadable file1 undefined "''http://x''"] w by auto
  have ne: "JSON_stringify2 (mk_config ''http://x'' None None) \<noteq> JSON_stringify2 config1"
    using stringify2_config_inj [of "''http://x''" None None "''http://h''" "Some (''PUB'', ''PRIV'')" "Some ''tok''"]
    by (auto simp: config1_def mk_config_def)
  show ?thesis using st file1_config1 w ne by simp
qed

text \<open>
  C8, amended. An error of the file system is reported and the program goes on:
  \<^item> when the file exists but cannot be read or parsed, \<open>initConfig\<close> prints
    \<open>Error loading config file:\<close> and the command runs on the default configuration; a
    command that saves (here \<open>config --server u\<close>) then writes that state over the file;
  \<^item> when the file cannot be written, \<open>saveConfig\<close> prints \<open>Error saving config file:\<close>
    and returns, the state otherwise unchanged;
  \<^item> the library's \<open>_loadConfig\<close> logs the error and keeps its defaults, and its
    \<open>_saveConfig\<close> logs the error and throws it again.
\<close>

theorem persistence_errors_reported:
  "(dir_exists w \<and> config_file w = Some d \<and> (\<not> can_read w \<or> JSON_parse d = Inl e)
      \<and> can_write w \<and> u \<noteq> [] \<longrightarrow>
      (\<exists>st. run (cmd_config (Some u) False) w = Inr st
           \<and> config st = mk_config u None None
           \<and> config_file st = JSON_stringify2 (mk_config u None None)
           \<and> (\<exists>m. console st = console w @ [''Error loading config file: '' @ m,
                                              ''Server URL updated: '' @ u])))
   \<and> (\<not> can_write st \<and> config st = Obj kvs \<longrightarrow>
        saveConfig st = console_log (''Error saving config file: '' @ ''write'') st)
   \<and> (dir_exists l \<and> config_file l = Some d \<and> (\<not> can_read l \<or> JSON_parse d = Inl e) \<longrightarrow>
        (\<exists>m. loadConfig l = lib_log ''error'' (''Fel vid laddning av konfiguration: '' @ m) l))
   \<and> (\<not> can_write l \<and> this_config l = Obj kvs' \<longrightarrow>
        (\<exists>e. lib_saveConfig l
           = (Some e, lib_log ''error'' (''Fel vid sparande av konfiguration: '' @ message e) l)))"
  using cmd_config_after_load_error [of w d e u] saveConfig_write_error [of st kvs]
    loadConfig_load_error [of l d e] lib_saveConfig_write_error [of l kvs']
  by blast

theorem persistence_errors_reported_witness:
  "(\<exists>st. run (cmd_config (Some ''http://x'') False) world_unreadable = Inr st
         \<and> config st = mk_config ''http://x'' None None
         \<and> config_file st = JSON_stringify2 (mk_config ''http://x'' None None)
         \<and> (\<exists>m. console st = console world_unreadable
                     @ [''Error loading config file: '' @ m, ''Server URL updated: '' @ ''http://x'']))
   \<and> saveConfig (start world_readonly)
        = console_log (''Error saving config file: '' @ ''write'') (start world_readonly)
   \<and> (\<exists>m. loadConfig (lib_start options0 world_unreadable)
          = lib_log ''error'' (''Fel vid laddning av konfiguration: '' @ m)
              (lib_start options0 world_unreadable))
   \<and> (\<exists>e. lib_saveConfig (lib_start options0 world_readonly)
          = (Some e, lib_log ''error'' (''Fel vid sparande av konfiguration: '' @ message e)
                       (lib_start options0 world_readonly)))"
proof -
  have w: "dir_exists world_unreadable" "config_file world_unreadable = Some file1"
    "\<not> can_read world_unreadable" "can_write world_unreadable" "\<not> can_write world_readonly"
    by (simp_all add: world_unreadable_def world_readonly_def world1_def world0_def)
  have c: "config (start world_readonly) = Obj [(''server'', Str ''http://localhost:3000''),
      (''keyPair'', Null), (''token'', Null)]"
    by (simp add: start_simps default_config_def)
  have l: "this_config (lib_start options0 world_readonly)
      = Obj [(''server'', js_or (opt_val (o_server options0)) (Str ''http://localhost:3000'')),
             (''keyPair'', Null), (''token'', Null)]"
    by (simp add: lib_start_simps lib_default_config_def)
  show ?thesis
    using persistence_errors_reported [of world_unreadable file1 SyntaxError "''http://x''"
        "start world_readonly" _ "lib_start options0 world_unreadable"]
      persistence_errors_reported [of world_unreadable file1 SyntaxError "''http://x''"
        "start world_readonly" _ "lib_start options0 world_readonly"]
      w c l
    by (simp add: start_simps lib_start_simps)
qed

subsection \<open>Logout, key generation and interrupted writes: auxiliary facts\<close>

lemma cmd_logout_memory:
  assumes "config st = Obj kvs"
  shows "\<not> truthy (js_prop (config (cmd_logout st)) ''token'')"
    and "k \<noteq> ''token'' \<Longrightarrow> js_prop (config (cmd_logout st)) k = js_prop (config st) k"
  using assms
  by (auto simp: cmd_logout_def saveConfig_def console_log_def writeFileSync_def obj_lookup_set
      split: option.splits sum.splits)

lemma set_token_null: "t \<noteq> [] \<Longrightarrow> js_set (mk_config s kp (Some t)) ''token'' Null = mk_config s kp None"
  by (simp add: mk_config_def)

lemma cmd_logout_disk:
  assumes "dir_exists st" "can_write st" "config st = mk_config s kp (Some t)" "t \<noteq> []"
  shows "config (cmd_logout st) = mk_config s kp None"
    and "config_file (cmd_logout st) = JSON_stringify2 (mk_config s kp None)"
    and "requests (cmd_logout st) = requests st"
proof -
  obtain d where d: "JSON_stringify2 (mk_config s kp None) = Some d"
    using stringify2_config_defined by blast
  have tr: "truthy (js_prop (config st) ''token'')"
    using assms by (simp add: mk_config_def)
  have sv: "saveConfig (st\<lparr>config := mk_config s kp None\<rparr>) = st\<lparr>config := mk_config s kp None, config_file := Some d\<rparr>"
    using assms by (simp add: saveConfig_ok d)
  have "cmd_logout st = console_log ''Logged out successfully''
          (st\<lparr>config := mk_config s kp None, config_file := Some d\<rparr>)"
    using tr assms(3,4) by (simp add: cmd_logout_def set_token_null sv)
  then show "config (cmd_logout st) = mk_config s kp None"
    and "config_file (cmd_logout st) = JSON_stringify2 (mk_config s kp None)"
    and "requests (cmd_logout st) = requests st"
    by (simp_all add: console_log_def d)
qed

lemma lib_logout_memory:
  assumes "this_config st = Obj kvs"
  shows "\<not> truthy (js_prop (this_config (snd (lib_logout st))) ''token'')"
    and "k \<noteq> ''token'' \<Longrightarrow> js_prop (this_config (snd (lib_logout st))) k = js_prop (this_config st) k"
  using assms
  by (auto simp: lib_logout_def lib_saveConfig_def lib_log_def console_log_def writeFileSync_def
      mkdirSync_def obj_lookup_set JSON_stringify2_def
      split: option.splits sum.splits prod.splits)

lemma lib_saveConfig_ok:
  assumes "dir_exists st" "can_write st" "JSON_stringify2 (this_config st) = Some d"
  shows "lib_saveConfig st = (None, lib_log ''debug'' ''Konfiguration sparad'' (st\<lparr>config_file := Some d\<rparr>))"
  using assms by (simp add: lib_saveConfig_def writeFileSync_def)

lemma lib_log_simps:
  "this_config (lib_log lv m st) = this_config st" "config_file (lib_log lv m st) = config_file st"
  "requests (lib_log lv m st) = requests st" "dir_exists (lib_log lv m st) = dir_exists st"
  "can_write (lib_log lv m st) = can_write st" "can_read (lib_log lv m st) = can_read st"
  "this_logLevel (lib_log lv m st) = this_logLevel st"
  by (simp_all add: lib_log_def console_log_def split: option.splits)

lemma lib_logout_disk:
  assumes "dir_exists st" "can_write st" "this_config st = mk_config s kp (Some t)"
  shows "fst (lib_logout st) = Inr (Obj [(''success'', Bool True)])"
    and "this_config (snd (lib_logout st)) = mk_config s kp None"
    and "config_file (snd (lib_logout st)) = JSON_stringify2 (mk_config s kp None)"
    and "requests (snd (lib_logout st)) = requests st"
proof -
  obtain d where d: "JSON_stringify2 (mk_config s kp None) = Some d"
    using stringify2_config_defined by blast
  have set: "js_set (mk_config s kp (Some t)) ''token'' Null = mk_config s kp None"
    by (simp add: mk_config_def)
  have "lib_logout st = (Inr (Obj [(''success'', Bool True)]),
          lib_log ''debug'' ''Konfiguration sparad''
            (st\<lparr>this_config := mk_config s kp None, api_authorization := None, config_file := Some d\<rparr>))"
    using assms d by (simp add: lib_logout_def set lib_saveConfig_ok)
  then show "fst (lib_logout st) = Inr (Obj [(''success'', Bool True)])"
    and "this_config (snd (lib_logout st)) = mk_config s kp None"
    and "config_file (snd (lib_logout st)) = JSON_stringify2 (mk_config s kp None)"
    and "requests (snd (lib_logout st)) = requests st"
    by (simp_all add: lib_log_simps d)
qed








lemma saveConfig_interrupted_file:
  assumes "dir_exists st" "can_write st" "JSON_stringify2 (config st) = Some d"
  shows "config_file (saveConfig_interrupted k st) = Some (take k d)"
    and "length d \<le> k \<Longrightarrow> saveConfig_interrupted k st = saveConfig st"
  using assms
  by (simp_all add: saveConfig_interrupted_def writeFileSync_interrupted_def saveConfig_ok)

lemma lib_saveConfig_interrupted_file:
  assumes "dir_exists st" "can_write st" "JSON_stringify2 (this_config st) = Some d"
  shows "config_file (lib_saveConfig_interrupted k st) = Some (take k d)"
  using assms
  by (simp_all add: lib_saveConfig_interrupted_def writeFileSync_interrupted_def)

lemma cli1_simps:
  "config cli1 = config1" "dir_exists cli1" "can_write cli1" "can_read cli1"
  "config_file cli1 = Some file1" "requests cli1 = []" "console cli1 = []"
  by (simp_all add: cli1_def start_simps world1_def world0_def)

lemma lib1_simps:
  "this_config lib1 = config1" "dir_exists lib1" "can_write lib1" "can_read lib1"
  "config_file lib1 = Some file1" "requests lib1 = []" "console lib1 = []"
  by (simp_all add: lib1_def lib_start_simps world1_def world0_def)

section \<open>Round trip of the configuration\<close>

lemma spread2_lib_default:
  "spread2 (lib_default_config options) (mk_config s kp tok) = mk_config s kp tok"
  by (simp add: spread2_def lib_default_config_def mk_config_def)

lemma new_OtrustCLI_ok:
  assumes "dir_exists w" "can_read w" "config_file w = Some d" "JSON_parse d = Inr (mk_config s kp tok)"
  shows "this_config (new_OtrustCLI options w) = mk_config s kp tok"
  using assms
  by (simp add: new_OtrustCLI_def loadConfig_def existsSync_file_def readFileSync_def
      lib_start_simps Let_def lib_log_simps spread2_lib_default)

lemma cli_roundtrip:
  assumes "dir_exists st" "can_write st" "can_read st"
  shows "\<exists>st'. initConfig (start (world.truncate (saveConfig (st\<lparr>config := mk_config s kp tok\<rparr>))))
                 = Inr st'
             \<and> config st' = mk_config s kp tok"
proof -
  obtain d where d: "JSON_stringify2 (mk_config s kp tok) = Some d"
    using stringify2_config_defined by blast
  have p: "JSON_parse d = Inr (mk_config s kp tok)"
    using d by (rule parse_config)
  have sv: "saveConfig (st\<lparr>config := mk_config s kp tok\<rparr>)
              = st\<lparr>config := mk_config s kp tok, config_file := Some d\<rparr>"
    using assms by (simp add: saveConfig_ok d)
  have "initConfig (start (world.truncate (st\<lparr>config := mk_config s kp tok, config_file := Some d\<rparr>)))
          = Inr ((start (world.truncate (st\<lparr>config := mk_config s kp tok, config_file := Some d\<rparr>)))
                   \<lparr>config := spread2 default_config (mk_config s kp tok)\<rparr>)"
    using assms p
    by (subst initConfig_ok [where d = d and parsed = "mk_config s kp tok"])
       (simp_all add: start_simps truncate_simps)
  then show ?thesis
    by (simp add: sv default_config_mk spread2_config)
qed

lemma lib_roundtrip:
  assumes "dir_exists l" "can_write l" "can_read l"
  shows "this_config (new_OtrustCLI options
           (world.truncate (snd (lib_saveConfig (l\<lparr>this_config := mk_config s kp tok\<rparr>)))))
         = mk_config s kp tok"
proof -
  obtain d where d: "JSON_stringify2 (mk_config s kp tok) = Some d"
    using stringify2_config_defined by blast
  have p: "JSON_parse d = Inr (mk_config s kp tok)"
    using d by (rule parse_config)
  have sv: "lib_saveConfig (l\<lparr>this_config := mk_config s kp tok\<rparr>)
      = (None, lib_log ''debug'' ''Konfiguration sparad''
                 (l\<lparr>this_config := mk_config s kp tok, config_file := Some d\<rparr>))"
    using assms d by (simp add: lib_saveConfig_ok)
  show ?thesis
    using assms p
    by (simp add: sv new_OtrustCLI_ok [where d = d] truncate_simps lib_log_simps)
qed

text \<open>
  C5. Round trip of the configuration. In a world whose configuration directory exists
  and can be read and written, for every configuration (server URL, key pair or none,
  token or none): after \<open>saveConfig\<close> has written it, \<open>initConfig\<close> in a new process
  loads a configuration equal to it; and after \<open>_saveConfig\<close> of a library instance has
  written it, a new instance (whatever its options) holds a configuration equal to it.
\<close>

theorem config_roundtrip:
  assumes "dir_exists st" "can_write st" "can_read st"
    and "dir_exists l" "can_write l" "can_read l"
  shows "(\<exists>st'. initConfig (start (world.truncate (saveConfig (st\<lparr>config := mk_config s kp tok\<rparr>))))
                 = Inr st'
              \<and> config st' = mk_config s kp tok)
       \<and> this_config (new_OtrustCLI options
            (world.truncate (snd (lib_saveConfig (l\<lparr>this_config := mk_config s kp tok\<rparr>)))))
          = mk_config s kp tok"
  using cli_roundtrip [OF assms(1-3)] lib_roundtrip [OF assms(4-6)] by simp

theorem config_roundtrip_witness:
  "(\<exists>st'. initConfig (start (world.truncate (saveConfig ((start world0)\<lparr>config := config1\<rparr>)))) = Inr st'
         \<and> config st' = config1)
   \<and> this_config (new_OtrustCLI options0
        (world.truncate (snd (lib_saveConfig ((lib_start options0 world0)\<lparr>this_config := config1\<rparr>)))))
      = config1"
proof -
  have w: "dir_exists (start world0)" "can_write (start world0)" "can_read (start world0)"
    "dir_exists (lib_start options0 world0)" "can_write (lib_start options0 world0)"
    "can_read (lib_start options0 world0)"
    by (simp_all add: start_simps lib_start_simps world0_def)
  show ?thesis
    unfolding config1_def
    using config_roundtrip [OF w(1) w(2) w(3) w(4) w(5) w(6),
        of "''http://h''" "Some (''PUB'', ''PRIV'')" "Some ''tok''" options0]
    by simp
qed

section \<open>Logout\<close>

text \<open>
  C9. Logout changes the token only, and saves. For a configuration with server \<open>s\<close>,
  key pair \<open>kp\<close> and a token, in a world whose configuration file can be written:
  after \<open>logout\<close> of the command-line program and after \<open>logout()\<close> of the library the
  configuration in memory has the same server and key pair and no token, no request has
  been sent, and the file holds the serialization of exactly that configuration, which
  parses back to server \<open>s\<close>, key pair \<open>kp\<close> and no token.
\<close>

theorem logout_clears_token_only:
  assumes "dir_exists st" "can_write st" "config st = mk_config s kp (Some t)" "t \<noteq> []"
    and "dir_exists l" "can_write l" "this_config l = mk_config s' kp' (Some t')"
  shows "config (cmd_logout st) = mk_config s kp None
       \<and> config_file (cmd_logout st) = JSON_stringify2 (mk_config s kp None)
       \<and> requests (cmd_logout st) = requests st
       \<and> (\<exists>d. JSON_stringify2 (mk_config s kp None) = Some d
               \<and> JSON_parse d = Inr (mk_config s kp None))
       \<and> fst (lib_logout l) = Inr (Obj [(''success'', Bool True)])
       \<and> this_config (snd (lib_logout l)) = mk_config s' kp' None
       \<and> config_file (snd (lib_logout l)) = JSON_stringify2 (mk_config s' kp' None)
       \<and> requests (snd (lib_logout l)) = requests l
       \<and> (\<exists>d. JSON_stringify2 (mk_config s' kp' None) = Some d
               \<and> JSON_parse d = Inr (mk_config s' kp' None))"
proof -
  have a: "\<exists>d. JSON_stringify2 (mk_config s kp None) = Some d
               \<and> JSON_parse d = Inr (mk_config s kp None)"
    using stringify2_config_defined [of s kp None] parse_config by blast
  have b: "\<exists>d. JSON_stringify2 (mk_config s' kp' None) = Some d
               \<and> JSON_parse d = Inr (mk_config s' kp' None)"
    using stringify2_config_defined [of s' kp' None] parse_config by blast
  show ?thesis
    using cmd_logout_disk [OF assms(1-4)] lib_logout_disk [OF assms(5-7)] a b by simp
qed

theorem logout_clears_token_only_witness:
  "config (cmd_logout cli1) = mk_config ''http://h'' (Some (''PUB'', ''PRIV'')) None
   \<and> config_file (cmd_logout cli1) = JSON_stringify2 (mk_config ''http://h'' (Some (''PUB'', ''PRIV'')) None)
   \<and> requests (cmd_logout cli1) = []
   \<and> fst (lib_logout lib1) = Inr (Obj [(''success'', Bool True)])
   \<and> this_config (snd (lib_logout lib1)) = mk_config ''http://h'' (Some (''PUB'', ''PRIV'')) None
   \<and> config_file (snd (lib_logout lib1)) = JSON_stringify2 (mk_config ''http://h'' (Some (''PUB'', ''PRIV'')) None)
   \<and> requests (snd (lib_logout lib1)) = []"
proof -
  have c: "config cli1 = mk_config ''http://h'' (Some (''PUB'', ''PRIV'')) (Some ''tok'')"
    "this_config lib1 = mk_config ''http://h'' (Some (''PUB'', ''PRIV'')) (Some ''tok'')"
    by (simp_all add: cli1_simps lib1_simps config1_def)
  have t: "''tok'' \<noteq> []" by simp
  show ?thesis
    using logout_clears_token_only [OF cli1_simps(2) cli1_simps(3) c(1) t lib1_simps(2) lib1_simps(3) c(2)]
    by (simp add: cli1_simps lib1_simps)
qed

section \<open>Key generation\<close>















section \<open>Interrupted saves\<close>

text \<open>
  C4, as stated, fails. The file holds a valid configuration. A \<open>saveConfig\<close> that is
  stopped when the file has been opened and nothing written yet leaves an empty file, which
  is not the previous content and does not parse.
\<close>

theorem interrupted_save_corrupts:
  "config_file (start world1) = Some file1 \<and> JSON_parse file1 = Inr config1
   \<and> config_file (saveConfig_interrupted 0 (start world1)) = Some []
   \<and> JSON_parse [] = Inl SyntaxError"
proof -
  obtain d where d: "JSON_stringify2 (config (start world1)) = Some d"
    using stringify2_default by (auto simp: start_simps)
  have w: "dir_exists (start world1)" "can_write (start world1)"
    by (simp_all add: start_simps world1_def world0_def)
  have a: "config_file (saveConfig_interrupted 0 (start world1)) = Some []"
    using saveConfig_interrupted_file(1) [OF w d, of 0] by simp
  have b: "JSON_parse file1 = Inr config1"
    using file1_config1 parse_config unfolding config1_def by blast
  have c: "JSON_parse [] = Inl SyntaxError"
    by (simp add: JSON_parse_def skip_ws_def)
  show ?thesis
    using a b c by (simp add: start_simps world1_def)
qed

text \<open>
  C4, amended. \<open>saveConfig\<close> and \<open>_saveConfig\<close> overwrite the file in place, without a
  temporary file: a save that is stopped after \<open>k\<close> bytes leaves the first \<open>k\<close> bytes of
  the new serialization in the file, whatever the file held before, and a save that is not
  stopped before the last byte leaves what \<open>saveConfig\<close> leaves.
\<close>

theorem save_in_place:
  assumes "dir_exists st" "can_write st" "JSON_stringify2 (config st) = Some d"
    and "dir_exists l" "can_write l" "JSON_stringify2 (this_config l) = Some d'"
  shows "config_file (saveConfig_interrupted k st) = Some (take k d)
       \<and> (length d \<le> k \<longrightarrow> saveConfig_interrupted k st = saveConfig st)
       \<and> config_file (lib_saveConfig_interrupted k l) = Some (take k d')"
  using saveConfig_interrupted_file [OF assms(1-3)] lib_saveConfig_interrupted_file [OF assms(4-6)]
  by simp

theorem save_in_place_witness:
  "config_file (saveConfig_interrupted 3 cli1) = Some (take 3 file1)
   \<and> saveConfig_interrupted (length file1) cli1 = saveConfig cli1
   \<and> config_file (lib_saveConfig_interrupted 3 lib1) = Some (take 3 file1)"
proof -
  have d: "JSON_stringify2 (config cli1) = Some file1" "JSON_stringify2 (this_config lib1) = Some file1"
    by (simp_all add: cli1_simps lib1_simps file1_config1)
  show ?thesis
    using save_in_place [OF cli1_simps(2) cli1_simps(3) d(1) lib1_simps(2) lib1_simps(3) d(2), of 3]
      save_in_place [OF cli1_simps(2) cli1_simps(3) d(1) lib1_simps(2) lib1_simps(3) d(2), of "length file1"]
    by simp
qed

section \<open>Canonical payloads\<close>

subsection \<open>Auxiliary facts on \<open>JSON.stringify\<close> and numbers\<close>

lemma wrap_json_compact: "wrap_json l r [] ind partial = l # join '','' partial @ [r]"
  by (cases partial) (simp_all add: wrap_json_def)

lemma stringify_obj: "JSON_stringify (Obj kvs) = Some (CHR ''{'' # join '','' (members kvs) @ ''}'')"
proof -
  have "(\<lambda>kv. case ser [] [] (snd kv) of None \<Rightarrow> []
              | Some t \<Rightarrow> [quote (fst kv) @ '':'' @ (if ([]::string) = [] then [] else '' '') @ t])
        = (\<lambda>kv. case ser [] [] (snd kv) of None \<Rightarrow> [] | Some t \<Rightarrow> [quote (fst kv) @ '':'' @ t])"
    by (auto split: option.splits)
  then show ?thesis
    by (simp add: JSON_stringify_def wrap_json_compact members_def)
qed

lemma members_append: "members (xs @ ys) = members xs @ members ys"
  by (simp add: members_def)

lemma join_snoc: "xs \<noteq> [] \<Longrightarrow> join sep (xs @ [x]) = join sep xs @ sep @ x"
  by (induction sep xs rule: join.induct) auto

lemma payload_ends_with_confidence:
  assumes "js_prop pd ''claimId'' = Str c" "js_prop pd ''confidence'' = Num n"
  shows "\<exists>pre. proof_payload pd = Some (pre @ '',\"confidence\":'' @ json_num n @ ''}'')"
proof -
  let ?front = "[(''claimId'', js_prop pd ''claimId''), (''action'', js_prop pd ''action''),
                 (''publicKey'', js_prop pd ''publicKey''), (''timestamp'', js_prop pd ''timestamp''),
                 (''reason'', js_prop pd ''reason'')]"
  have ne: "members ?front \<noteq> []"
    by (simp add: members_def assms)
  have last: "members [(''confidence'', js_prop pd ''confidence'')] = [''\"confidence\":'' @ json_num n]"
    by (simp add: members_def assms quote_def escape_def escape_char_def)
  have "proof_payload pd = JSON_stringify (Obj (?front @ [(''confidence'', js_prop pd ''confidence'')]))"
    by (simp add: proof_payload_def)
  also have "\<dots> = Some (CHR ''{'' # join '','' (members ?front @ [''\"confidence\":'' @ json_num n]) @ ''}'')"
    unfolding stringify_obj members_append last ..
  also have "\<dots> = Some ((CHR ''{'' # join '','' (members ?front)) @ '',\"confidence\":'' @ json_num n @ ''}'')"
    by (simp add: join_snoc [OF ne])
  finally show ?thesis by blast
qed


lemma length_show_nat: "n < 10 ^ k \<Longrightarrow> 0 < k \<Longrightarrow> length (show_nat n) \<le> k"
proof (induction n arbitrary: k rule: show_nat.induct)
  case (1 n)
  show ?case
  proof (cases "n < 10")
    case True
    then show ?thesis using "1.prems" by (simp add: show_nat.simps [of n])
  next
    case False
    then obtain k' where k: "k = Suc k'" "0 < k'"
      using "1.prems" by (cases k; cases "k - 1") auto
    have "n div 10 < 10 ^ k'" using "1.prems"(1) k by (simp add: less_mult_imp_div_less mult.commute)
    then have "length (show_nat (n div 10)) \<le> k'" using "1.IH" False k by simp
    then show ?thesis using False k by (simp add: show_nat.simps [of n])
  qed
qed

lemma strip_trailing_zeros_pad:
  "strip_trailing_zeros ds @ replicate (length ds - length (strip_trailing_zeros ds)) (CHR ''0'') = ds"
proof -
  let ?P = "\<lambda>c. c = CHR ''0''"
  have tw: "takeWhile ?P xs = replicate (length (takeWhile ?P xs)) (CHR ''0'')" for xs
    by (induction xs) auto
  have "rev ds = takeWhile ?P (rev ds) @ dropWhile ?P (rev ds)" by simp
  then have "ds = rev (dropWhile ?P (rev ds)) @ rev (takeWhile ?P (rev ds))"
    by (metis rev_append rev_rev_ident)
  moreover have "rev (takeWhile ?P (rev ds)) = replicate (length (takeWhile ?P (rev ds))) (CHR ''0'')"
    using tw [of "rev ds"] by (metis rev_replicate)
  moreover have "length ds - length (strip_trailing_zeros ds) = length (takeWhile ?P (rev ds))"
  proof -
    have "length (rev ds) = length (takeWhile ?P (rev ds)) + length (dropWhile ?P (rev ds))"
      by (metis length_append takeWhile_dropWhile_id)
    then show ?thesis by (simp add: strip_trailing_zeros_def)
  qed
  ultimately show ?thesis by (simp add: strip_trailing_zeros_def)
qed

lemma length_strip: "length (strip_trailing_zeros ds) \<le> length ds"
  by (simp add: strip_trailing_zeros_def length_dropWhile_le [of _ "rev ds", simplified])

lemma json_num_int:
  assumes "\<bar>T\<bar> < 10 ^ 21"
  shows "json_num (Whole T) = show_int T"
proof (cases "T = 0")
  case True
  then show ?thesis by (simp add: json_num_def show_int_def show_nat.simps digit_char_def)
next
  case False
  let ?ds = "show_nat (nat \<bar>T\<bar>)"
  have "nat \<bar>T\<bar> < 10 ^ 21" using assms by (simp add: nat_less_iff)
  then have len: "length ?ds \<le> 21" by (rule length_show_nat) simp
  have "digits_toString (strip_trailing_zeros ?ds) (int (length ?ds)) = ?ds"
    using len length_strip [of ?ds] strip_trailing_zeros_pad [of ?ds]
    by (simp add: digits_toString_def Let_def nat_diff_distrib' of_nat_diff)
  then show ?thesis
    using False by (auto simp: json_num_def show_int_def Let_def abs_if)
qed

subsection \<open>The payloads, written out\<close>

lemma quote_key [simp]:
  "quote ''action'' = ''\"action\"''" "quote ''publicKey'' = ''\"publicKey\"''"
  "quote ''timestamp'' = ''\"timestamp\"''" "quote ''claim'' = ''\"claim\"''"
  "quote ''evidence'' = ''\"evidence\"''" "quote ''type'' = ''\"type\"''"
  "quote ''parent_id'' = ''\"parent_id\"''" "quote ''semantic'' = ''\"semantic\"''"
  "quote ''subject'' = ''\"subject\"''" "quote ''predicate'' = ''\"predicate\"''"
  "quote ''object'' = ''\"object\"''" "quote ''claimId'' = ''\"claimId\"''"
  "quote ''reason'' = ''\"reason\"''" "quote ''confidence'' = ''\"confidence\"''"
  by (simp_all add: quote_def escape_def escape_char_def)

lemma null_or_ser_Str [simp]:
  "(\<lambda>x. case ser [] ind x of None \<Rightarrow> ''null'' | Some t \<Rightarrow> t) \<circ> Str = quote"
  "(\<lambda>x. case ser [] ind x of None \<Rightarrow> ''null'' | Some t \<Rightarrow> t) \<circ> (\<lambda>e. Str (g e)) = quote \<circ> g"
  by (simp_all add: fun_eq_iff)

lemma ser_str_list: "ser [] ind (Arr (map Str es)) = Some (''['' @ join '','' (map quote es) @ '']'')"
  by (simp add: wrap_json_compact comp_def)

lemma auth_payload_canonical:
  assumes "js_prop keyPair ''publicKey'' = Str P" "\<bar>T\<bar> < 10 ^ 21"
  shows "auth_payload action keyPair T = Some (canonical_auth action P T)"
  using assms
  by (simp add: auth_payload_def stringify_obj members_def canonical_auth_def json_num_int)

lemma buildClaimPayload_canonical:
  assumes "js_prop (js_prop (this_config l) ''keyPair'') ''publicKey'' = Str P" "\<bar>T\<bar> < 10 ^ 21"
  shows "buildClaimPayload (claimData_of f) T l = Inr (canonical_claim P T f)"
proof -
  have tr: "truthy (js_prop (this_config l) ''keyPair'')"
    using assms(1) by (cases "js_prop (this_config l) ''keyPair''") auto
  have par: "ser [] [] (js_or (case f_parent f of None \<Rightarrow> Null | Some p \<Rightarrow> Str p) Null)
             = Some (case norm_parent (f_parent f) of None \<Rightarrow> ''null'' | Some p \<Rightarrow> quote p)"
    by (simp add: js_or_def norm_parent_def split: option.splits)
  show ?thesis
    using assms tr
    by (simp add: buildClaimPayload_def claimData_of_def stringify_obj members_def
        canonical_claim_def json_num_int ser_str_list par wrap_json_compact comp_def)
qed

lemma cli_claim_payload_canonical:
  assumes "\<not> claim_interactive opts" "js_prop keyPair ''publicKey'' = Str P" "\<bar>T\<bar> < 10 ^ 21"
  shows "claim_payload (stamp_claim (claim_data opts answers) keyPair T)
           = Some (canonical_claim P T (fields_of_options opts))"
proof -
  obtain c e t s p ob where o: "c_claim opts = Some c" "c_evidence opts = Some e" "c_type opts = Some t"
    "c_subject opts = Some s" "c_predicate opts = Some p" "c_object opts = Some ob" "e \<noteq> []"
    using assms(1)
    by (auto simp: claim_interactive_def claim_data_of_options_def opt_val_def Let_def
        split: option.splits if_splits)
  have ev: "ser [] [] (Arr (map (\<lambda>e. Str (trim e)) (split_on (CHR '','') e)))
            = Some (''['' @ join '','' (map quote (map trim (split_on (CHR '','') e))) @ '']'')"
    using ser_str_list [of "[]" "map trim (split_on (CHR '','') e)"] by (simp add: comp_def)
  show ?thesis
    using assms o
    by (simp add: claim_data_def claim_data_of_options_def opt_val_def stamp_claim_def
        claim_payload_def stringify_obj members_def canonical_claim_def fields_of_options_def
        opt_str_def norm_parent_def json_num_int ev wrap_json_compact)
qed

lemma cli_proof_payload_canonical:
  assumes "\<not> proof_interactive opts" "js_prop keyPair ''publicKey'' = Str P" "\<bar>T\<bar> < 10 ^ 21"
  shows "proof_payload (stamp_proof (proof_data opts answers) keyPair T)
           = Some (canonical_proof P T (opt_str (p_claimId opts)) (opt_str (p_action opts))
                     (p_reason opts) (flag_confidence (p_confidence opts)))"
proof -
  obtain c a where o: "p_claimId opts = Some c" "p_action opts = Some a"
    using assms(1)
    by (auto simp: proof_interactive_def proof_data_of_options_def opt_val_def Let_def
        split: option.splits if_splits)
  show ?thesis
    using assms o
    by (cases "p_reason opts"; cases "p_confidence opts")
       (simp_all add: proof_data_def proof_data_of_options_def opt_val_def stamp_proof_def
        proof_payload_def stringify_obj members_def canonical_proof_def
        opt_str_def json_num_int flag_confidence_def)
qed

lemma addProof_payload_canonical:
  assumes "js_prop (js_prop (this_config l) ''keyPair'') ''publicKey'' = Str P" "\<bar>T\<bar> < 10 ^ 21"
  shows "addProof_payload (proofData_of claimId action reason confidence) T l
           = Inr (canonical_proof P T claimId action reason confidence)"
proof -
  have g: "js_get (js_prop (this_config l) ''keyPair'') ''publicKey'' = Inr (Str P)"
    using assms(1) by (cases "js_prop (this_config l) ''keyPair''") auto
  show ?thesis
    using assms(2)
    by (cases reason)
       (simp_all add: addProof_payload_def proofData_of_def g stringify_obj members_def
        canonical_proof_def json_num_int)
qed

subsection \<open>Quoted strings, numbers and lists end where they end\<close>

lemma quote_cancel: "quote a @ x = quote b @ y \<Longrightarrow> a = b \<and> x = y"
proof -
  assume "quote a @ x = quote b @ y"
  then have "escape a @ CHR 0x22 # x = escape b @ CHR 0x22 # y"
    by (simp add: quote_def)
  then have "parse_string_body (escape a @ CHR 0x22 # x) = parse_string_body (escape b @ CHR 0x22 # y)"
    by simp
  then show ?thesis by (simp add: parse_escape)
qed

lemma quote_inj: "quote a = quote b \<Longrightarrow> a = b"
  using quote_cancel [of a "[]" b "[]"] by simp

lemma quote_Cons: "(c # x = quote p @ y) = (c = CHR 0x22 \<and> x = escape p @ CHR 0x22 # y)"
  "(quote p @ y = c # x) = (c = CHR 0x22 \<and> x = escape p @ CHR 0x22 # y)"
  by (auto simp: quote_def)

lemma digit_char_props: "k < 10 \<Longrightarrow> is_digit (digit_char k) \<and> digit_val (digit_char k) = k"
proof -
  assume "k < 10"
  then have "k = 0 \<or> k = 1 \<or> k = 2 \<or> k = 3 \<or> k = 4 \<or> k = 5 \<or> k = 6 \<or> k = 7 \<or> k = 8 \<or> k = 9"
    by arith
  then show ?thesis
    by (elim disjE) (simp_all add: digit_char_def is_digit_def digit_val_def)
qed

lemma show_nat_digits: "c \<in> set (show_nat n) \<Longrightarrow> is_digit c"
proof (induction n rule: show_nat.induct)
  case (1 n)
  then show ?case
    by (cases "n < 10") (auto simp: show_nat.simps [of n] digit_char_props)
qed

lemma show_nat_nonempty: "show_nat n \<noteq> []"
  by (simp add: show_nat.simps [of n])

lemma nat_of_digits_snoc: "nat_of_digits (xs @ [c]) = 10 * nat_of_digits xs + digit_val c"
  by (simp add: nat_of_digits_def)

lemma nat_of_digits_show_nat: "nat_of_digits (show_nat n) = n"
proof (induction n rule: show_nat.induct)
  case (1 n)
  show ?case
  proof (cases "n < 10")
    case True
    then show ?thesis
      by (simp add: show_nat.simps [of n] nat_of_digits_def digit_char_props)
  next
    case False
    then show ?thesis
      using "1.IH" by (simp add: show_nat.simps [of n] nat_of_digits_snoc digit_char_props)
  qed
qed

lemma show_nat_cancel:
  assumes "show_nat a @ c # x = show_nat b @ d # y" "\<not> is_digit c" "\<not> is_digit d"
  shows "a = b \<and> c # x = d # y"
proof -
  have ta: "takeWhile is_digit (show_nat a @ c # x) = show_nat a"
    using assms(2) show_nat_digits by (simp add: takeWhile_tail takeWhile_eq_all_conv)
  have tb: "takeWhile is_digit (show_nat b @ d # y) = show_nat b"
    using assms(3) show_nat_digits by (simp add: takeWhile_tail takeWhile_eq_all_conv)
  have "show_nat a = show_nat b" using ta tb assms(1) by simp
  then have "a = b" by (metis nat_of_digits_show_nat)
  then show ?thesis using assms(1) by simp
qed

lemma show_int_cancel:
  assumes "show_int a @ CHR '','' # x = show_int b @ CHR '','' # y"
  shows "a = b \<and> x = y"
proof -
  have nd: "\<not> is_digit (CHR '','')" "\<not> is_digit (CHR ''-'')" by (simp_all add: is_digit_def)
  have hd_digit: "\<exists>c r. show_nat n = c # r \<and> is_digit c" for n
    using show_nat_nonempty [of n] show_nat_digits [of _ n] by (cases "show_nat n") auto
  show ?thesis
  proof (cases "a < 0"; cases "b < 0")
    assume "a < 0" "b < 0"
    then show ?thesis
      using assms show_nat_cancel [of "nat (- a)" "CHR '',''" x "nat (- b)" "CHR '',''" y] nd
      by (auto simp: show_int_def)
  next
    assume "\<not> a < 0" "\<not> b < 0"
    then show ?thesis
      using assms show_nat_cancel [of "nat a" "CHR '',''" x "nat b" "CHR '',''" y] nd
      by (auto simp: show_int_def)
  next
    assume "a < 0" "\<not> b < 0"
    then show ?thesis
      using assms hd_digit [of "nat b"] nd by (auto simp: show_int_def)
  next
    assume "\<not> a < 0" "b < 0"
    then show ?thesis
      using assms hd_digit [of "nat a"] nd by (auto simp: show_int_def)
  qed
qed

lemma join_Cons: "join sep (x # xs) = x @ (if xs = [] then [] else sep @ join sep xs)"
  by (cases xs) simp_all

lemma str_list_cancel:
  "join '','' (map quote es) @ CHR '']'' # x = join '','' (map quote es') @ CHR '']'' # y
     \<Longrightarrow> es = es' \<and> x = y"
proof (induction es arbitrary: es')
  case Nil
  then show ?case by (cases es') (auto simp: join_Cons quote_Cons)
next
  case (Cons e r)
  show ?case
  proof (cases es')
    case Nil
    then show ?thesis using Cons.prems by (auto simp: join_Cons quote_Cons)
  next
    case (Cons e' r')
    have eq: "quote e @ (if r = [] then [] else '','' @ join '','' (map quote r)) @ CHR '']'' # x
            = quote e' @ (if r' = [] then [] else '','' @ join '','' (map quote r')) @ CHR '']'' # y"
      using Cons.prems Cons by (simp add: join_Cons)
    from quote_cancel [OF eq] have e: "e = e'"
      and rest: "(if r = [] then [] else '','' @ join '','' (map quote r)) @ CHR '']'' # x
               = (if r' = [] then [] else '','' @ join '','' (map quote r')) @ CHR '']'' # y"
      by simp_all
    show ?thesis
    proof (cases "r = []"; cases "r' = []")
      assume "r \<noteq> []" "r' \<noteq> []"
      then have "join '','' (map quote r) @ CHR '']'' # x = join '','' (map quote r') @ CHR '']'' # y"
        using rest by simp
      then show ?thesis using Cons.IH e Cons by simp
    qed (use rest e Cons in \<open>auto simp: join_Cons\<close>)
  qed
qed


lemma parent_cancel:
  assumes "(case p of None \<Rightarrow> ''null'' | Some s \<Rightarrow> quote s) @ CHR '','' # x
         = (case p' of None \<Rightarrow> ''null'' | Some s \<Rightarrow> quote s) @ CHR '','' # y"
  shows "p = p' \<and> x = y"
  using assms
  by (cases p; cases p') (auto simp: quote_Cons dest: quote_cancel)

lemma canonical_claim_inj:
  assumes "canonical_claim P T f = canonical_claim P' T' f'"
  shows "P = P' \<and> T = T' \<and> f_claim f = f_claim f' \<and> f_evidence f = f_evidence f'
       \<and> f_type f = f_type f' \<and> norm_parent (f_parent f) = norm_parent (f_parent f')
       \<and> f_subject f = f_subject f' \<and> f_predicate f = f_predicate f' \<and> f_object f = f_object f'"
  using assms
  apply (simp add: canonical_claim_def)
  apply (drule quote_cancel)
  apply clarsimp
  apply (drule str_list_cancel)
  apply clarsimp
  apply (drule quote_cancel)
  apply clarsimp
  apply (drule quote_cancel)
  apply clarsimp
  apply (drule parent_cancel)
  apply clarsimp
  apply (drule show_int_cancel)
  apply clarsimp
  apply (drule quote_cancel)
  apply clarsimp
  apply (drule quote_cancel)
  apply clarsimp
  apply (drule quote_inj)
  apply simp
  done

section \<open>Confidence of a proof\<close>

lemma noninteractive_fields:
  assumes "\<not> proof_interactive opts"
  shows "\<exists>c. js_prop (stamp_proof (proof_data opts answers) keyPair now) ''claimId'' = Str c"
    and "js_prop (proof_data opts answers) ''confidence'' = Num (flag_confidence (p_confidence opts))"
    and "js_prop (stamp_proof (proof_data opts answers) keyPair now) ''confidence''
           = Num (flag_confidence (p_confidence opts))"
  using assms
  by (auto simp: proof_interactive_def proof_data_def proof_data_of_options_def stamp_proof_def
      opt_val_def flag_confidence_def Let_def split: option.splits)

text \<open>
  C10, amended. In non-interactive \<open>proof:add\<close> the confidence of the signed payload is 1
  when the \<open>--confidence\<close> flag is absent or empty, and otherwise the flag's value read
  by \<open>parseFloat\<close>, whatever it is: there is no range check. The canonical string ends
  with that number (\<open>null\<close> when it is not finite). The check of the prompt, which
  interactive mode alone runs, accepts an input only if it reads as a number from 0 to 1.
\<close>

theorem noninteractive_confidence:
  assumes "\<not> proof_interactive opts"
  shows "js_prop (proof_data opts answers) ''confidence'' = Num (flag_confidence (p_confidence opts))
       \<and> (\<exists>pre. proof_payload (stamp_proof (proof_data opts answers) keyPair now)
                  = Some (pre @ '',\"confidence\":'' @ json_num (flag_confidence (p_confidence opts)) @ ''}''))
       \<and> (validate_confidence inp \<longrightarrow>
            parseFloat inp \<noteq> NaN \<and> num_le (Whole 0) (parseFloat inp) \<and> num_le (parseFloat inp) (Whole 1))"
proof -
  obtain c where c: "js_prop (stamp_proof (proof_data opts answers) keyPair now) ''claimId'' = Str c"
    using noninteractive_fields(1) [OF assms] by blast
  show ?thesis
    using payload_ends_with_confidence [OF c noninteractive_fields(3) [OF assms]]
      noninteractive_fields(2) [OF assms]
    by (simp add: validate_confidence_def Let_def)
qed

lemma parseFloat_five: "parseFloat ''5'' = Whole 5"
  by (simp add: parseFloat_def is_js_space_def is_digit_def nat_of_digits_def digit_val_def
      exponent_part_def mk_num_def)

lemma parseFloat_empty: "parseFloat [] = NaN"
  by (simp add: parseFloat_def)

text \<open>
  C10, as stated, fails for an empty flag value: \<open>--confidence ""\<close> is given, but the
  payload carries 1, not the float read from the empty string (\<open>NaN\<close>).
\<close>

theorem empty_confidence_flag:
  "\<not> proof_interactive proof_opts_empty \<and> p_confidence proof_opts_empty = Some []
   \<and> js_prop (proof_data proof_opts_empty Null) ''confidence'' = Num (Whole 1)
   \<and> parseFloat [] = NaN
   \<and> proof_payload (stamp_proof (proof_data proof_opts_empty Null) (keypair_obj (''PUB'', ''PRIV'')) 5)
       = Some ''{\"claimId\":\"c1\",\"action\":\"confirmed\",\"publicKey\":\"PUB\",\"timestamp\":5,\"confidence\":1}''"
  by (simp add: proof_interactive_def proof_data_def proof_data_of_options_def proof_opts_empty_def
      opt_val_def parseFloat_empty proof_payload_def stamp_proof_def keypair_obj_def
      JSON_stringify_def wrap_json_def quote_def escape_def escape_char_def json_num_def
      show_nat.simps digit_char_def strip_trailing_zeros_def digits_toString_def)


theorem noninteractive_confidence_witness:
  "\<not> proof_interactive proof_opts_five
   \<and> js_prop (proof_data proof_opts_five Null) ''confidence'' = Num (Whole 5)
   \<and> (\<exists>pre. proof_payload (stamp_proof (proof_data proof_opts_five Null) (keypair_obj (''PUB'', ''PRIV'')) 5)
              = Some (pre @ '',\"confidence\":5}''))
   \<and> \<not> validate_confidence ''5''
   \<and> validate_confidence ''1''"
proof -
  have h: "\<not> proof_interactive proof_opts_five"
    by (simp add: proof_interactive_def proof_data_of_options_def proof_opts_five_def opt_val_def)
  have f: "flag_confidence (p_confidence proof_opts_five) = Whole 5"
    by (simp add: flag_confidence_def proof_opts_five_def parseFloat_five)
  have n: "json_num (Whole 5) = ''5''"
    by (simp add: json_num_def show_nat.simps digit_char_def strip_trailing_zeros_def
        digits_toString_def)
  have one: "parseFloat ''1'' = Whole 1"
    by (simp add: parseFloat_def is_js_space_def is_digit_def nat_of_digits_def digit_val_def
        exponent_part_def mk_num_def)
  have v: "\<not> validate_confidence ''5''" "validate_confidence ''1''"
    by (simp_all add: validate_confidence_def parseFloat_five one)
  show ?thesis
    using h noninteractive_confidence [OF h, of Null "keypair_obj (''PUB'', ''PRIV'')" 5 "''1''"] v
    by (simp add: f n one)
qed


section \<open>Operations without a key pair\<close>

lemma lib_nokey_simps:
  "this_config lib_nokey = mk_config ''http://h'' None (Some ''tok'')" "requests lib_nokey = []"
  by (simp_all add: lib_nokey_def lib_start_simps world0_def)

text \<open>
  C3. The library's \<open>addProof\<close> has no guard on the key pair. With a token but no key
  pair in the configuration it fails on reading \<open>publicKey\<close> of \<open>null\<close>: a TypeError,
  where \<open>createClaim\<close> and \<open>buildClaimPayload\<close> in the same state throw the
  configuration error. No request is sent in either case.
\<close>

theorem addProof_without_keypair:
  "addProof proof1 signer1 net1 5 lib_nokey
     = (Inl (TypeError ''Cannot read properties of null (reading publicKey)''), lib_nokey)
   \<and> requests lib_nokey = []
   \<and> createClaim claim1 signer1 net1 5 lib_nokey = (Inl (Error msg_no_keypair), lib_nokey)
   \<and> buildClaimPayload claim1 5 lib_nokey = Inl (Error msg_no_keypair)"
  by (simp add: addProof_def addProof_payload_def createClaim_def buildClaimPayload_def
      lib_nokey_simps mk_config_def proof1_def)

text \<open>The other paths do guard: without a key pair they fail locally, before any request.\<close>

lemma guards_without_keypair:
  assumes "\<not> truthy (js_prop (config st) ''keyPair'')" "\<not> truthy (js_prop (this_config l) ''keyPair'')"
  shows "cmd_claim_create copts answers signer net now st
           = Inr (console_log ''Error: You must be logged in to create a claim'' st)"
    and "cmd_proof_add popts answers signer net now st
           = Inr (console_log ''Error: You must be logged in to add a proof'' st)"
    and "buildClaimPayload claimData now l = Inl (Error msg_no_keypair)"
    and "fst (createClaim claimData signer net now l) = Inl (Error msg_no_keypair)
         \<or> fst (createClaim claimData signer net now l) = Inl (Error msg_login_claim)"
    and "snd (createClaim claimData signer net now l) = l"
    and "lib_auth action path signer net now l = (Inl (Error msg_no_keypair), l)"
    and "fst (lib_sign signer d Undefined l) = Inl (Error msg_no_private_key)"
    and "requests (snd (lib_sign signer d Undefined l)) = requests l"
  using assms
  by (simp_all add: cmd_claim_create_def cmd_proof_add_def buildClaimPayload_def createClaim_def
      lib_auth_def lib_sign_def Let_def js_or_def lib_log_simps)


section \<open>The canonical payload of each action\<close>

text \<open>
  C1, as stated, fails for a proof without a reason: \<open>proof:add -c c1 -a confirmed\<close>
  signs a string with five keys; \<open>reason\<close> is \<open>undefined\<close> and \<open>JSON.stringify\<close>
  leaves it out.
\<close>

theorem proof_payload_without_reason:
  "proof_payload (stamp_proof (proof_data proof_opts_noreason Null) (keypair_obj (''PUB'', ''PRIV'')) 5)
     = Some ''{\"claimId\":\"c1\",\"action\":\"confirmed\",\"publicKey\":\"PUB\",\"timestamp\":5,\"confidence\":1}''
   \<and> payload_keys ''{\"claimId\":\"c1\",\"action\":\"confirmed\",\"publicKey\":\"PUB\",\"timestamp\":5,\"confidence\":1}''
     = Some [''claimId'', ''action'', ''publicKey'', ''timestamp'', ''confidence'']"
proof -
  have a: "proof_payload (stamp_proof (proof_data proof_opts_noreason Null) (keypair_obj (''PUB'', ''PRIV'')) 5)
     = Some ''{\"claimId\":\"c1\",\"action\":\"confirmed\",\"publicKey\":\"PUB\",\"timestamp\":5,\"confidence\":1}''"
    by (simp add: proof_interactive_def proof_data_def proof_data_of_options_def proof_opts_noreason_def
      opt_val_def proof_payload_def stamp_proof_def keypair_obj_def
      JSON_stringify_def wrap_json_def quote_def escape_def escape_char_def json_num_def
      show_nat.simps digit_char_def strip_trailing_zeros_def digits_toString_def)
  have b: "payload_keys ''{\"claimId\":\"c1\",\"action\":\"confirmed\",\"publicKey\":\"PUB\",\"timestamp\":5,\"confidence\":1}''
     = Some [''claimId'', ''action'', ''publicKey'', ''timestamp'', ''confidence'']"
    by (simp add: payload_keys_def JSON_parse_def skip_ws_def is_ws_def is_digit_def
        parse_number_def nat_of_digits_def digit_val_def mk_num_def obj_of_members_def)
  show ?thesis using a b by simp
qed

text \<open>
  C1, amended. With a public key \<open>P\<close> and a timestamp \<open>T\<close> (an integer below
  \<open>10^21\<close>, as \<open>Date.now()\<close> gives):
  \<^item> register and login sign \<open>{"action":...,"publicKey":"P","timestamp":T}\<close>;
  \<^item> claim creation signs claim, evidence, publicKey, type, parent_id, timestamp and
    semantic, in this order, in the command-line program (without prompt) and in the
    library;
  \<^item> proof addition signs claimId, action, publicKey, timestamp, reason and confidence,
    in this order, where \<open>reason\<close> is left out when it is not given;
  \<^item> in every case, also after a prompt, the string is the list of the members with a
    defined value, in the order above.
\<close>

theorem canonical_payloads:
  assumes "js_prop keyPair ''publicKey'' = Str P"
    and "js_prop (js_prop (this_config l) ''keyPair'') ''publicKey'' = Str P"
    and "\<bar>T\<bar> < 10 ^ 21"
  shows "auth_payload ''register'' keyPair T = Some (canonical_auth ''register'' P T)
       \<and> auth_payload ''login'' keyPair T
            = Some (''{\"action\":\"login\",\"publicKey\":'' @ quote P @ '',\"timestamp\":'' @ show_int T @ ''}'')
       \<and> (\<not> claim_interactive copts \<longrightarrow>
            claim_payload (stamp_claim (claim_data copts answers) keyPair T)
              = Some (canonical_claim P T (fields_of_options copts)))
       \<and> buildClaimPayload (claimData_of f) T l = Inr (canonical_claim P T f)
       \<and> (\<not> proof_interactive popts \<longrightarrow>
            proof_payload (stamp_proof (proof_data popts answers) keyPair T)
              = Some (canonical_proof P T (opt_str (p_claimId popts)) (opt_str (p_action popts))
                        (p_reason popts) (flag_confidence (p_confidence popts))))
       \<and> addProof_payload (proofData_of claimId action reason confidence) T l
            = Inr (canonical_proof P T claimId action reason confidence)
       \<and> claim_payload cd
            = Some (CHR ''{'' # join '','' (members
                      [(''claim'', js_prop cd ''claim''), (''evidence'', js_prop cd ''evidence''),
                       (''publicKey'', js_prop cd ''publicKey''), (''type'', js_prop cd ''type''),
                       (''parent_id'', js_prop cd ''parent_id''),
                       (''timestamp'', js_prop cd ''timestamp''),
                       (''semantic'', js_prop cd ''semantic'')]) @ ''}'')
       \<and> proof_payload pd
            = Some (CHR ''{'' # join '','' (members
                      [(''claimId'', js_prop pd ''claimId''), (''action'', js_prop pd ''action''),
                       (''publicKey'', js_prop pd ''publicKey''),
                       (''timestamp'', js_prop pd ''timestamp''),
                       (''reason'', js_prop pd ''reason''),
                       (''confidence'', js_prop pd ''confidence'')]) @ ''}'')"
proof -
  have login: "canonical_auth ''login'' P T
      = ''{\"action\":\"login\",\"publicKey\":'' @ quote P @ '',\"timestamp\":'' @ show_int T @ ''}''"
    by (simp add: canonical_auth_def quote_def escape_def escape_char_def)
  show ?thesis
    using auth_payload_canonical [OF assms(1,3), of "''register''"]
      auth_payload_canonical [OF assms(1,3), of "''login''"]
      cli_claim_payload_canonical [OF _ assms(1,3), of copts answers]
      buildClaimPayload_canonical [OF assms(2,3), of f]
      cli_proof_payload_canonical [OF _ assms(1,3), of popts answers]
      addProof_payload_canonical [OF assms(2,3), of claimId action reason confidence]
    by (simp add: login claim_payload_def proof_payload_def stringify_obj)
qed

lemma sample_key:
  "js_prop (keypair_obj (''PUB'', ''PRIV'')) ''publicKey'' = Str ''PUB''"
  "js_prop (js_prop (this_config lib1) ''keyPair'') ''publicKey'' = Str ''PUB''"
  by (simp_all add: lib1_simps config1_def mk_config_def keypair_obj_def)

lemma sample_noninteractive:
  "\<not> claim_interactive claim_opts1" "\<not> proof_interactive proof_opts_five"
  by (simp_all add: claim_interactive_def claim_data_of_options_def claim_opts1_def
      proof_interactive_def proof_data_of_options_def proof_opts_five_def opt_val_def)

theorem canonical_payloads_witness:
  "auth_payload ''login'' (keypair_obj (''PUB'', ''PRIV'')) 1700000000000
     = Some ''{\"action\":\"login\",\"publicKey\":\"PUB\",\"timestamp\":1700000000000}''
   \<and> \<not> claim_interactive claim_opts1
   \<and> claim_payload (stamp_claim (claim_data claim_opts1 Null) (keypair_obj (''PUB'', ''PRIV'')) 1700000000000)
       = Some (canonical_claim ''PUB'' 1700000000000 (fields_of_options claim_opts1))
   \<and> buildClaimPayload (claimData_of fields1) 1700000000000 lib1
       = Inr ''{\"claim\":\"Stockholm is the capital of Sweden\",\"evidence\":[\"https://e.example/1\",\"https://e.example/2\"],\"publicKey\":\"PUB\",\"type\":\"factual\",\"parent_id\":null,\"timestamp\":1700000000000,\"semantic\":{\"subject\":\"Stockholm\",\"predicate\":\"capital of\",\"object\":\"Sweden\"}}''
   \<and> \<not> proof_interactive proof_opts_five
   \<and> proof_payload (stamp_proof (proof_data proof_opts_five Null) (keypair_obj (''PUB'', ''PRIV'')) 1700000000000)
       = Some ''{\"claimId\":\"c1\",\"action\":\"confirmed\",\"publicKey\":\"PUB\",\"timestamp\":1700000000000,\"reason\":\"seen\",\"confidence\":5}''"
proof -
  have t: "\<bar>1700000000000 :: int\<bar> < 10 ^ 21" by simp
  have n: "show_int 1700000000000 = ''1700000000000''"
    by (simp add: show_int_def show_nat.simps digit_char_def)
  have q: "quote ''PUB'' = ''\"PUB\"''"
    by (simp add: quote_def escape_def escape_char_def)
  have c: "canonical_claim ''PUB'' 1700000000000 fields1
      = ''{\"claim\":\"Stockholm is the capital of Sweden\",\"evidence\":[\"https://e.example/1\",\"https://e.example/2\"],\"publicKey\":\"PUB\",\"type\":\"factual\",\"parent_id\":null,\"timestamp\":1700000000000,\"semantic\":{\"subject\":\"Stockholm\",\"predicate\":\"capital of\",\"object\":\"Sweden\"}}''"
    by (simp add: canonical_claim_def fields1_def norm_parent_def n quote_def escape_def
        escape_char_def)
  have p: "canonical_proof ''PUB'' 1700000000000 (opt_str (p_claimId proof_opts_five))
             (opt_str (p_action proof_opts_five)) (p_reason proof_opts_five)
             (flag_confidence (p_confidence proof_opts_five))
      = ''{\"claimId\":\"c1\",\"action\":\"confirmed\",\"publicKey\":\"PUB\",\"timestamp\":1700000000000,\"reason\":\"seen\",\"confidence\":5}''"
    by (simp add: canonical_proof_def proof_opts_five_def opt_str_def flag_confidence_def
        parseFloat_five n quote_def escape_def escape_char_def json_num_def show_nat.simps
        digit_char_def strip_trailing_zeros_def digits_toString_def)
  show ?thesis
    using canonical_payloads [OF sample_key(1) sample_key(2) t, of claim_opts1 Null fields1
        proof_opts_five "''c1''" "''confirmed''" None "Whole 1" Null Null] sample_noninteractive
    by (simp add: n q c p)
qed

section \<open>Determinism and injectivity of the claim payload\<close>

text \<open>
  C2, as stated, fails in its second half: a claim with the empty string as parent and a
  claim with no parent are different inputs of \<open>buildClaimPayload\<close> and give the same
  canonical string, since \<open>parent_id || null\<close> maps both to \<open>null\<close>.
\<close>

theorem parent_id_not_distinguished:
  "claimData_of (fields1\<lparr>f_parent := Some []\<rparr>) \<noteq> claimData_of fields1
   \<and> buildClaimPayload (claimData_of (fields1\<lparr>f_parent := Some []\<rparr>)) 5 lib1
       = buildClaimPayload (claimData_of fields1) 5 lib1"
proof -
  have k: "js_prop (js_prop (this_config lib1) ''keyPair'') ''publicKey'' = Str ''PUB''"
    by (simp add: lib1_simps config1_def mk_config_def keypair_obj_def)
  have t: "\<bar>5 :: int\<bar> < 10 ^ 21" by simp
  have c: "canonical_claim ''PUB'' 5 (fields1\<lparr>f_parent := Some []\<rparr>) = canonical_claim ''PUB'' 5 fields1"
    by (simp add: canonical_claim_def norm_parent_def fields1_def)
  have e1: "buildClaimPayload (claimData_of (fields1\<lparr>f_parent := Some []\<rparr>)) 5 lib1
              = Inr (canonical_claim ''PUB'' 5 (fields1\<lparr>f_parent := Some []\<rparr>))"
    using k t by (rule buildClaimPayload_canonical)
  have e2: "buildClaimPayload (claimData_of fields1) 5 lib1 = Inr (canonical_claim ''PUB'' 5 fields1)"
    using k t by (rule buildClaimPayload_canonical)
  have ne: "claimData_of (fields1\<lparr>f_parent := Some []\<rparr>) \<noteq> claimData_of fields1"
    by (simp add: claimData_of_def fields1_def)
  show ?thesis
    using ne by (simp add: e1 e2 c)
qed

lemma canonical_claim_cong:
  assumes "f_claim g = f_claim g'" "f_evidence g = f_evidence g'" "f_type g = f_type g'"
    "norm_parent (f_parent g) = norm_parent (f_parent g')" "f_subject g = f_subject g'"
    "f_predicate g = f_predicate g'" "f_object g = f_object g'"
  shows "canonical_claim P T g = canonical_claim P T g'"
  using assms by (simp add: canonical_claim_def)

lemma fields_of_options_eq:
  assumes "f_claim (fields_of_options opts) = f_claim (fields_of_options opts')"
    "f_evidence (fields_of_options opts) = f_evidence (fields_of_options opts')"
    "f_type (fields_of_options opts) = f_type (fields_of_options opts')"
    "f_subject (fields_of_options opts) = f_subject (fields_of_options opts')"
    "f_predicate (fields_of_options opts) = f_predicate (fields_of_options opts')"
    "f_object (fields_of_options opts) = f_object (fields_of_options opts')"
  shows "fields_of_options opts = fields_of_options opts'"
  using assms by (simp add: fields_of_options_def)

text \<open>
  C2, amended. The canonical string of a claim is a function of the public key, the
  timestamp and the fields of the claim, and of nothing else in the state: equal inputs give
  equal strings. Conversely, two strings are equal only if the public keys, the timestamps,
  the claim texts, the evidence lists, the types, the subjects, predicates and objects are
  equal, and the parents are equal once the empty parent is read as no parent. For the
  command-line program the fields are those derived from the options (the evidence list
  after splitting at commas and trimming).
\<close>

theorem claim_payload_deterministic_injective:
  assumes "js_prop (js_prop (this_config l) ''keyPair'') ''publicKey'' = Str P"
    and "js_prop (js_prop (this_config l') ''keyPair'') ''publicKey'' = Str P'"
    and "\<bar>T\<bar> < 10 ^ 21" "\<bar>T'\<bar> < 10 ^ 21"
  shows "((buildClaimPayload (claimData_of f) T l = buildClaimPayload (claimData_of f') T' l')
          \<longleftrightarrow> (P = P' \<and> T = T' \<and> f_claim f = f_claim f' \<and> f_evidence f = f_evidence f'
               \<and> f_type f = f_type f' \<and> norm_parent (f_parent f) = norm_parent (f_parent f')
               \<and> f_subject f = f_subject f' \<and> f_predicate f = f_predicate f'
               \<and> f_object f = f_object f'))
       \<and> (\<not> claim_interactive opts \<and> \<not> claim_interactive opts' \<longrightarrow>
            ((claim_payload (stamp_claim (claim_data opts answers) (js_prop (this_config l) ''keyPair'') T)
                = claim_payload (stamp_claim (claim_data opts' answers') (js_prop (this_config l') ''keyPair'') T'))
             \<longleftrightarrow> (P = P' \<and> T = T' \<and> fields_of_options opts = fields_of_options opts')))"
proof -
  have a: "buildClaimPayload (claimData_of f) T l = Inr (canonical_claim P T f)"
    using assms(1,3) by (rule buildClaimPayload_canonical)
  have b: "buildClaimPayload (claimData_of f') T' l' = Inr (canonical_claim P' T' f')"
    using assms(2,4) by (rule buildClaimPayload_canonical)
  have first: "(buildClaimPayload (claimData_of f) T l = buildClaimPayload (claimData_of f') T' l')
          \<longleftrightarrow> (P = P' \<and> T = T' \<and> f_claim f = f_claim f' \<and> f_evidence f = f_evidence f'
               \<and> f_type f = f_type f' \<and> norm_parent (f_parent f) = norm_parent (f_parent f')
               \<and> f_subject f = f_subject f' \<and> f_predicate f = f_predicate f'
               \<and> f_object f = f_object f')"
    unfolding a b using canonical_claim_inj [of P T f P' T' f'] canonical_claim_cong [of f f' P T] by auto
  have second: "(claim_payload (stamp_claim (claim_data opts answers) (js_prop (this_config l) ''keyPair'') T)
                = claim_payload (stamp_claim (claim_data opts' answers') (js_prop (this_config l') ''keyPair'') T'))
             \<longleftrightarrow> (P = P' \<and> T = T' \<and> fields_of_options opts = fields_of_options opts')"
    if ni: "\<not> claim_interactive opts" "\<not> claim_interactive opts'"
  proof -
    have c: "claim_payload (stamp_claim (claim_data opts answers) (js_prop (this_config l) ''keyPair'') T)
               = Some (canonical_claim P T (fields_of_options opts))"
      using ni(1) assms(1,3) by (rule cli_claim_payload_canonical)
    have d: "claim_payload (stamp_claim (claim_data opts' answers') (js_prop (this_config l') ''keyPair'') T')
               = Some (canonical_claim P' T' (fields_of_options opts'))"
      using ni(2) assms(2,4) by (rule cli_claim_payload_canonical)
    have np: "f_parent (fields_of_options opts) = None" "f_parent (fields_of_options opts') = None"
      by (simp_all add: fields_of_options_def)
    show ?thesis
      unfolding c d
      using canonical_claim_inj [of P T "fields_of_options opts" P' T' "fields_of_options opts'"]
        fields_of_options_eq [of opts opts']
      by auto
  qed
  show ?thesis using first second by blast
qed

theorem claim_payload_deterministic_injective_witness:
  "buildClaimPayload (claimData_of (fields1\<lparr>f_claim := ''Uppsala is the capital of Sweden''\<rparr>)) 5 lib1
     \<noteq> buildClaimPayload (claimData_of fields1) 5 lib1
   \<and> buildClaimPayload (claimData_of fields1) 5 lib_other = buildClaimPayload (claimData_of fields1) 5 lib1
   \<and> claim_payload (stamp_claim (claim_data claim_opts1 Null) (js_prop (this_config lib1) ''keyPair'') 5)
       \<noteq> claim_payload (stamp_claim (claim_data claim_opts1 Null) (js_prop (this_config lib1) ''keyPair'') 6)"
proof -
  have t: "\<bar>5 :: int\<bar> < 10 ^ 21" "\<bar>6 :: int\<bar> < 10 ^ 21" by simp_all
  have k2: "js_prop (js_prop (this_config lib_other) ''keyPair'') ''publicKey'' = Str ''PUB''"
    by (simp add: lib_other_def mk_config_def keypair_obj_def)
  have d: "f_claim (fields1\<lparr>f_claim := ''Uppsala is the capital of Sweden''\<rparr>) \<noteq> f_claim fields1"
    by (simp add: fields1_def)
  show ?thesis
    using claim_payload_deterministic_injective [OF sample_key(2) sample_key(2) t(1) t(1),
        of "fields1\<lparr>f_claim := ''Uppsala is the capital of Sweden''\<rparr>" fields1 claim_opts1 claim_opts1 Null Null]
      claim_payload_deterministic_injective [OF k2 sample_key(2) t(1) t(1),
        of fields1 fields1 claim_opts1 claim_opts1 Null Null]
      claim_payload_deterministic_injective [OF sample_key(2) sample_key(2) t(1) t(2),
        of fields1 fields1 claim_opts1 claim_opts1 Null Null]
      sample_noninteractive(1) d
    by simp
qed

end
